(* ===== verification/Prelude.thy ===== *)
theory Prelude
  imports Main
begin

text \<open>
  Shared vocabulary of the development: the lemma collections the component theories
  fill, and generic facts on lists (the first position satisfying a predicate, the
  global replacement of one element by a list) that the store and the command-line
  views both use.
\<close>

named_theorems store_simps "equations of the store operations on a readable collection"
named_theorems view_simps "equations of the console views of the todo-show command"

section \<open>First position satisfying a predicate\<close>

text \<open>
  \<open>first_pos P xs\<close> is the position of the first element of \<open>xs\<close> satisfying \<open>P\<close>,
  \<open>None\<close> when there is none: the store's "locate exactly one record" step.
\<close>

fun first_pos :: "('a \<Rightarrow> bool) \<Rightarrow> 'a list \<Rightarrow> nat option" where
  "first_pos P [] = None"
| "first_pos P (x # xs) = (if P x then Some 0 else map_option Suc (first_pos P xs))"

lemma first_pos_None_iff [simp]: "first_pos P xs = None \<longleftrightarrow> (\<forall>x\<in>set xs. \<not> P x)"
  by (induction xs) auto

lemma first_pos_Some:
  "first_pos P xs = Some i \<Longrightarrow> i < length xs \<and> P (xs ! i) \<and> (\<forall>j<i. \<not> P (xs ! j))"
proof (induction xs arbitrary: i)
  case Nil
  then show ?case by simp
next
  case (Cons x xs)
  show ?case
  proof (cases "P x")
    case True
    with Cons.prems show ?thesis by simp
  next
    case False
    with Cons.prems obtain k where k: "first_pos P xs = Some k" and i: "i = Suc k"
      by auto
    from Cons.IH [OF k] False i show ?thesis
      by (auto simp: less_Suc_eq_0_disj)
  qed
qed

lemma find_conv_first_pos: "find P xs = map_option (\<lambda>i. xs ! i) (first_pos P xs)"
  by (induction xs) (auto simp: option.map_comp comp_def)

lemma first_pos_append_notin:
  "\<forall>x\<in>set xs. \<not> P x \<Longrightarrow> first_pos P (xs @ ys) =
     (case first_pos P ys of None \<Rightarrow> None | Some i \<Rightarrow> Some (length xs + i))"
  by (induction xs) (auto split: option.splits simp del: first_pos_None_iff)

lemma first_pos_update:
  "first_pos P xs = Some i \<Longrightarrow> P y \<Longrightarrow> first_pos P (xs[i := y]) = Some i"
proof (induction xs arbitrary: i)
  case Nil
  then show ?case by simp
next
  case (Cons x xs)
  show ?case
  proof (cases "P x")
    case True
    with Cons.prems show ?thesis by (cases i) auto
  next
    case False
    with Cons.prems obtain k where "first_pos P xs = Some k" and "i = Suc k"
      by auto
    with Cons.IH Cons.prems(2) False show ?thesis by simp
  qed
qed

lemma first_pos_eqI:
  "i < length xs \<Longrightarrow> P (xs ! i) \<Longrightarrow> (\<forall>j<i. \<not> P (xs ! j)) \<Longrightarrow> first_pos P xs = Some i"
proof (induction xs arbitrary: i)
  case Nil
  then show ?case by simp
next
  case (Cons x xs)
  show ?case
  proof (cases i)
    case 0
    with Cons.prems show ?thesis by simp
  next
    case (Suc k)
    with Cons.prems have "\<not> P x" by auto
    moreover from Cons.prems Suc have "first_pos P xs = Some k" by (intro Cons.IH) auto
    ultimately show ?thesis using Suc by simp
  qed
qed

lemma first_pos_map_eq: "map P xs = map P ys \<Longrightarrow> first_pos P xs = first_pos P ys"
proof (induction xs arbitrary: ys)
  case Nil
  then show ?case by simp
next
  case (Cons x xs)
  then show ?case by (cases ys) simp_all
qed


lemma distinct_map_nth_eq:
  "distinct (map f xs) \<Longrightarrow> i < length xs \<Longrightarrow> j < length xs \<Longrightarrow> f (xs ! j) = f (xs ! i) \<Longrightarrow> j = i"
  by (metis distinct_conv_nth length_map nth_map)

lemma find_append_none:
  "\<forall>x\<in>set xs. \<not> P x \<Longrightarrow> find P (xs @ ys) = find P ys"
  by (induction xs) auto

section \<open>Replacing every occurrence of an element\<close>

text \<open>\<open>replace_all c r xs\<close> replaces every occurrence of \<open>c\<close> in \<open>xs\<close> by \<open>r\<close>.\<close>

definition replace_all :: "'a \<Rightarrow> 'a list \<Rightarrow> 'a list \<Rightarrow> 'a list" where
  "replace_all c r xs = concat (map (\<lambda>x. if x = c then r else [x]) xs)"

lemma replace_all_simps [simp]:
  "replace_all c r [] = []"
  "replace_all c r (x # xs) = (if x = c then r else [x]) @ replace_all c r xs"
  by (simp_all add: replace_all_def)

lemma replace_all_append [simp]:
  "replace_all c r (xs @ ys) = replace_all c r xs @ replace_all c r ys"
  by (simp add: replace_all_def)

lemma replace_all_notin: "c \<notin> set r \<Longrightarrow> c \<notin> set (replace_all c r xs)"
  by (induction xs) auto

lemma replace_all_id: "c \<notin> set xs \<Longrightarrow> replace_all c r xs = xs"
  by (induction xs) auto

lemma replace_all_Nil_iff [simp]: "replace_all c r xs = [] \<longleftrightarrow> (\<forall>x\<in>set xs. x = c \<and> r = [])"
  by (induction xs) auto

end
