(* ===== verification/Todo_Types.thy ===== *)
theory Todo_Types
  imports Prelude
begin

text \<open>
  The data model shared by every component: a todo item as the record the store keeps
  (\<open>TodoItem\<close> of the repository's \<open>types\<close> module) and the two task states of
  \<open>DEFAULT_TODO_STATUS_GROUP\<close> of its \<open>constants\<close> module. Both modules lie outside
  \<open>src/\<close>; they are modelled from the specification (section 3, Data Model).
\<close>

datatype todo_status = Unsolved | Solved

text \<open>
  The store's identifier \<open>_id\<close> is \<open>item_id\<close>. JavaScript tests it for truthiness
  (\<open>!task._id\<close>), so it is a number here and \<open>0\<close> is the falsy identifier;
  the store hands out identifiers from \<open>1\<close> on.
\<close>

record todo_item =
  item_id :: nat
  index :: int
  title :: string
  description :: string
  status :: todo_status
  cronTime :: "string option"
  item_notes :: "string list"

end
