(* ===== verification/Query_Matcher.thy ===== *)
theory Query_Matcher
  imports Todo_Types
begin

text \<open>
  The query matcher of the store (specification section 4.1; the store module lies
  outside \<open>src/\<close>). A filter is a conjunction of field conditions, each an equality
  on one field of the fixed record; the empty filter matches every record. The
  command queries by \<open>index\<close> with the value of a JavaScript number, which may be
  NaN or a fraction: such a value is \<open>None\<close> here and equals no index.
\<close>

datatype cond =
    Id_is nat
  | Index_is "int option"
  | Title_is string
  | Status_is todo_status

type_synonym query = "cond list"

fun match_cond :: "todo_item \<Rightarrow> cond \<Rightarrow> bool" where
  "match_cond t (Id_is i) = (item_id t = i)"
| "match_cond t (Index_is n) = (n = Some (index t))"
| "match_cond t (Title_is s) = (title t = s)"
| "match_cond t (Status_is st) = (status t = st)"

definition match_query :: "query \<Rightarrow> todo_item \<Rightarrow> bool" where
  "match_query q t = list_all (match_cond t) q"

lemma match_query_simps [simp]:
  "match_query [] t"
  "match_query (c # q) t \<longleftrightarrow> match_cond t c \<and> match_query q t"
  by (simp_all add: match_query_def)

text \<open>
  Conditions on the identifier and the index only read the two fields the store
  never changes on update; a query built from them keeps selecting the same record.
\<close>

fun stable_cond :: "cond \<Rightarrow> bool" where
  "stable_cond (Id_is _) = True"
| "stable_cond (Index_is _) = True"
| "stable_cond _ = False"

definition stable_query :: "query \<Rightarrow> bool" where
  "stable_query q = list_all stable_cond q"

lemma match_query_stable:
  "stable_query q \<Longrightarrow> item_id t' = item_id t \<Longrightarrow> index t' = index t \<Longrightarrow>
   match_query q t' = match_query q t"
proof (induction q)
  case Nil
  then show ?case by simp
next
  case (Cons c q)
  then show ?case by (cases c) (simp_all add: stable_query_def)
qed

lemma match_Id_is [simp]: "match_query [Id_is i] t \<longleftrightarrow> item_id t = i"
  by simp

lemma match_Index_is [simp]: "match_query [Index_is n] t \<longleftrightarrow> n = Some (index t)"
  by simp

lemma match_query_Nil_fun: "match_query [] = (\<lambda>_. True)"
  by (rule ext) simp

end
