(* ===== verification/Store.thy ===== *)
theory Store
  imports Query_Matcher "HOL-Library.Multiset"
begin

text \<open>
  The document store of the repository's \<open>utils/store\<close> module (outside \<open>src/\<close>),
  modelled from the specification, section 4.2. Its state is the committed snapshot
  of the collection file, in persisted order, and the two counters from which it
  hands out identifiers and indices. A snapshot that cannot be read is \<open>None\<close>: every
  operation on it fails with \<open>PersistenceError\<close>. An operation returns either an
  error or its result; a failed operation returns no new state, so the caller keeps
  the previous snapshot (the atomicity the specification asks for).

  Index policy (the specification leaves it open): indices are handed out by a
  counter that only grows, so an index is never reused after a removal.
\<close>

datatype store_error = NotFoundError | PersistenceError

record store =
  docs :: "todo_item list option"
  next_id :: nat
  next_index :: int

definition empty_store :: store where
  "empty_store = \<lparr>docs = Some [], next_id = 1, next_index = 1\<rparr>"

definition store_find :: "query \<Rightarrow> store \<Rightarrow> store_error + todo_item list" where
  "store_find q s =
     (case docs s of
       None \<Rightarrow> Inl PersistenceError
     | Some ds \<Rightarrow> Inr (filter (match_query q) ds))"

definition store_findOne :: "query \<Rightarrow> store \<Rightarrow> store_error + todo_item option" where
  "store_findOne q s =
     (case docs s of
       None \<Rightarrow> Inl PersistenceError
     | Some ds \<Rightarrow> Inr (find (match_query q) ds))"

text \<open>
  \<open>update\<close> locates the first matching record and replaces it by the replacement,
  keeping the stored identifier and index.
\<close>

definition store_update :: "query \<Rightarrow> todo_item \<Rightarrow> store \<Rightarrow> store_error + store" where
  "store_update q r s =
     (case docs s of
       None \<Rightarrow> Inl PersistenceError
     | Some ds \<Rightarrow>
         (case first_pos (match_query q) ds of
           None \<Rightarrow> Inl NotFoundError
         | Some i \<Rightarrow>
             Inr (s\<lparr>docs := Some (ds[i := r\<lparr>item_id := item_id (ds ! i),
                                             index := index (ds ! i)\<rparr>])\<rparr>)))"

definition store_insert :: "todo_item \<Rightarrow> store \<Rightarrow> store_error + todo_item \<times> store" where
  "store_insert r s =
     (case docs s of
       None \<Rightarrow> Inl PersistenceError
     | Some ds \<Rightarrow>
         (let t = r\<lparr>item_id := next_id s, index := next_index s\<rparr>
          in Inr (t, s\<lparr>docs := Some (ds @ [t]), next_id := Suc (next_id s),
                      next_index := next_index s + 1\<rparr>)))"

definition store_remove :: "query \<Rightarrow> store \<Rightarrow> store_error + store" where
  "store_remove q s =
     (case docs s of
       None \<Rightarrow> Inl PersistenceError
     | Some ds \<Rightarrow>
         (case first_pos (match_query q) ds of
           None \<Rightarrow> Inl NotFoundError
         | Some i \<Rightarrow> Inr (s\<lparr>docs := Some (take i ds @ drop (Suc i) ds)\<rparr>)))"

lemmas store_defs =
  store_find_def store_findOne_def store_update_def store_insert_def store_remove_def

section \<open>Invariant\<close>

text \<open>
  Identifiers are unique, non-zero and below the identifier counter; indices are
  unique among the live records and below the index counter (specification, section
  3: identity and index uniqueness).
\<close>

definition docs_inv :: "nat \<Rightarrow> int \<Rightarrow> todo_item list \<Rightarrow> bool" where
  "docs_inv nid nix ds \<longleftrightarrow>
     distinct (map item_id ds) \<and> distinct (map index ds) \<and>
     list_all (\<lambda>t. 0 < item_id t \<and> item_id t < nid \<and> index t < nix) ds"

definition store_inv :: "store \<Rightarrow> bool" where
  "store_inv s \<longleftrightarrow>
     0 < next_id s \<and>
     (case docs s of None \<Rightarrow> True | Some ds \<Rightarrow> docs_inv (next_id s) (next_index s) ds)"

section \<open>Abstraction: the identifier map\<close>

text \<open>
  The abstract view of a collection is the partial map from identifiers to records;
  the first record with an identifier wins, as \<open>findOne\<close> by identifier does.
\<close>

definition docs_map :: "todo_item list \<Rightarrow> nat \<rightharpoonup> todo_item" where
  "docs_map ds = map_of (map (\<lambda>t. (item_id t, t)) ds)"

lemma docs_map_simps [simp]:
  "docs_map [] = Map.empty"
  "docs_map (t # ds) = (docs_map ds)(item_id t \<mapsto> t)"
  by (simp_all add: docs_map_def fun_eq_iff)

lemma find_id_docs_map: "find (\<lambda>t. item_id t = k) ds = docs_map ds k"
  by (induction ds) auto

lemma docs_map_update:
  "distinct (map item_id ds) \<Longrightarrow> i < length ds \<Longrightarrow> item_id t' = item_id (ds ! i) \<Longrightarrow>
   docs_map (ds[i := t']) = (docs_map ds)(item_id (ds ! i) \<mapsto> t')"
proof (induction ds arbitrary: i)
  case Nil
  then show ?case by simp
next
  case (Cons t ds)
  show ?case
  proof (cases i)
    case 0
    with Cons.prems show ?thesis by (simp add: fun_eq_iff)
  next
    case (Suc k)
    with Cons.prems have "item_id (ds ! k) \<noteq> item_id t"
      by (metis distinct.simps(2) length_map list.simps(9) nth_map nth_mem Suc_less_eq length_Cons)
    with Cons Suc show ?thesis by (auto simp: fun_upd_twist)
  qed
qed

lemma docs_map_append: "docs_map (ds @ [t]) = (\<lambda>k. case docs_map ds k of None \<Rightarrow> (if k = item_id t then Some t else None) | Some u \<Rightarrow> Some u)"
  by (induction ds) (auto simp: fun_eq_iff)

section \<open>Operations on a readable collection\<close>

lemma store_update_Inr:
  "store_update q r s = Inr s' \<longleftrightarrow>
   (\<exists>ds i. docs s = Some ds \<and> first_pos (match_query q) ds = Some i \<and>
      s' = s\<lparr>docs := Some (ds[i := r\<lparr>item_id := item_id (ds ! i), index := index (ds ! i)\<rparr>])\<rparr>)"
  by (auto simp: store_update_def simp del: first_pos_None_iff split: option.splits)

lemma store_remove_Inr:
  "store_remove q s = Inr s' \<longleftrightarrow>
   (\<exists>ds i. docs s = Some ds \<and> first_pos (match_query q) ds = Some i \<and>
      s' = s\<lparr>docs := Some (take i ds @ drop (Suc i) ds)\<rparr>)"
  by (auto simp: store_remove_def simp del: first_pos_None_iff split: option.splits)

lemma store_insert_Inr:
  "store_insert r s = Inr (t, s') \<longleftrightarrow>
   (\<exists>ds. docs s = Some ds \<and> t = r\<lparr>item_id := next_id s, index := next_index s\<rparr> \<and>
      s' = s\<lparr>docs := Some (ds @ [t]), next_id := Suc (next_id s), next_index := next_index s + 1\<rparr>)"
  by (auto simp: store_insert_def Let_def split: option.splits)

lemma map_update_same_field:
  "i < length ds \<Longrightarrow> f t' = f (ds ! i) \<Longrightarrow> map f (ds[i := t']) = map f ds"
  by (metis list_update_id map_update nth_map)

lemma docs_inv_update:
  "docs_inv n m ds \<Longrightarrow> i < length ds \<Longrightarrow> item_id t' = item_id (ds ! i) \<Longrightarrow>
   index t' = index (ds ! i) \<Longrightarrow> docs_inv n m (ds[i := t'])"
  unfolding docs_inv_def list_all_iff
  using set_update_subset_insert [of ds i t'] nth_mem [of i ds]
  by (auto simp: map_update_same_field)

lemma docs_inv_remove: "docs_inv n m (xs @ y # ys) \<Longrightarrow> docs_inv n m (xs @ ys)"
  by (auto simp: docs_inv_def)

lemma docs_inv_remove_nth:
  "docs_inv n m ds \<Longrightarrow> i < length ds \<Longrightarrow> docs_inv n m (take i ds @ drop (Suc i) ds)"
  by (rule docs_inv_remove [where y = "ds ! i"]) (simp add: id_take_nth_drop [symmetric])

lemma docs_inv_snoc:
  "docs_inv n m ds \<Longrightarrow> 0 < n \<Longrightarrow>
   docs_inv (Suc n) (m + 1) (ds @ [t\<lparr>item_id := n, index := m\<rparr>])"
  by (auto simp: docs_inv_def list_all_iff)

lemma docs_inv_fresh_id: "docs_inv n m ds \<Longrightarrow> \<forall>t\<in>set ds. item_id t \<noteq> n"
  by (auto simp: docs_inv_def list_all_iff)

lemma find_first_pos_nth:
  "first_pos P ds = Some i \<Longrightarrow> find P ds = Some (ds ! i)"
  by (simp add: find_conv_first_pos)

lemma mset_remove_nth:
  "i < length ds \<Longrightarrow> mset ds = add_mset (ds ! i) (mset (take i ds @ drop (Suc i) ds))"
  by (metis id_take_nth_drop mset.simps(2) mset_append add_mset_add_single union_mset_add_mset_right)

lemma store_find_Nil: "docs s = Some ds \<Longrightarrow> store_find [] s = Inr ds"
  by (simp add: store_find_def match_query_Nil_fun)

lemma store_findOne_Some:
  "docs s = Some ds \<Longrightarrow> store_findOne q s = Inr (find (match_query q) ds)"
  by (simp add: store_findOne_def)

lemma store_update_by_id:
  assumes inv: "store_inv s" and ds: "docs s = Some ds" and t: "t \<in> set ds"
  shows "\<exists>i<length ds. ds ! i = t \<and>
           (\<forall>r. store_update [Id_is (item_id t)] r s =
             Inr (s\<lparr>docs := Some (ds[i := r\<lparr>item_id := item_id t, index := index t\<rparr>])\<rparr>))"
proof -
  from t obtain i where i: "i < length ds" "ds ! i = t" by (auto simp: in_set_conv_nth)
  from inv ds have dist: "distinct (map item_id ds)" by (simp add: store_inv_def docs_inv_def)
  have "\<forall>j<i. \<not> match_query [Id_is (item_id t)] (ds ! j)"
  proof (intro allI impI)
    fix j
    assume "j < i"
    with i have "j < length ds" and "j \<noteq> i" by auto
    with distinct_map_nth_eq [OF dist i(1) \<open>j < length ds\<close>] i(2)
    show "\<not> match_query [Id_is (item_id t)] (ds ! j)" by auto
  qed
  with i have "first_pos (match_query [Id_is (item_id t)]) ds = Some i"
    by (intro first_pos_eqI) auto
  with i ds show ?thesis by (auto simp: store_update_def)
qed

lemmas store_inv_facts = store_inv_def docs_inv_update docs_inv_remove_nth docs_inv_snoc

text \<open>\<open>find\<close> on the empty filter returns every live record, in persisted order.\<close>

theorem store_find_all:
  "store_find [] s = (case docs s of None \<Rightarrow> Inl PersistenceError | Some ds \<Rightarrow> Inr ds)"
  by (simp add: store_find_def split: option.split)

text \<open>\<open>findOne\<close> returns the first record \<open>find\<close> returns for the same filter, and
  absence when there is none.\<close>

theorem store_findOne_first:
  "store_findOne q s = map_sum id (\<lambda>xs. case xs of [] \<Rightarrow> None | t # _ \<Rightarrow> Some t) (store_find q s)"
proof -
  have "find P ds = (case filter P ds of [] \<Rightarrow> None | t # _ \<Rightarrow> Some t)" for P and ds :: "todo_item list"
    by (induction ds) auto
  then show ?thesis by (simp add: store_find_def store_findOne_def split: option.split)
qed

text \<open>\<open>update\<close> fails with \<open>NotFoundError\<close> exactly when \<open>findOne\<close> with the same filter
  reports absence; it then returns no new state, so the committed snapshot stays as it was.\<close>

theorem store_update_NotFound:
  "store_update q r s = Inl NotFoundError \<longleftrightarrow> store_findOne q s = Inr None"
  by (auto simp: store_update_def store_findOne_def find_conv_first_pos
      simp del: first_pos_None_iff split: option.splits)

text \<open>refinement. A successful \<open>update\<close> on a store satisfying the invariant acts on the
  abstract identifier map as a map update: the record \<open>findOne\<close> selects is replaced by the
  replacement carrying the selected record's identifier and index; the counters do not move.\<close>

theorem store_update_refines:
  assumes inv: "store_inv s" and upd: "store_update q r s = Inr s'"
  shows "\<exists>ds ds' t. docs s = Some ds \<and> docs s' = Some ds' \<and> store_findOne q s = Inr (Some t) \<and>
           docs_map ds' = (docs_map ds)(item_id t \<mapsto> r\<lparr>item_id := item_id t, index := index t\<rparr>) \<and>
           next_id s' = next_id s \<and> next_index s' = next_index s"
proof -
  from upd obtain ds i where ds: "docs s = Some ds" and i: "first_pos (match_query q) ds = Some i"
    and s': "s' = s\<lparr>docs := Some (ds[i := r\<lparr>item_id := item_id (ds ! i), index := index (ds ! i)\<rparr>])\<rparr>"
    by (auto simp: store_update_Inr)
  from i have len: "i < length ds" by (auto dest: first_pos_Some)
  from inv ds have "distinct (map item_id ds)" by (simp add: store_inv_def docs_inv_def)
  with len have "docs_map (ds[i := r\<lparr>item_id := item_id (ds ! i), index := index (ds ! i)\<rparr>]) =
      (docs_map ds)(item_id (ds ! i) \<mapsto> r\<lparr>item_id := item_id (ds ! i), index := index (ds ! i)\<rparr>)"
    by (simp add: docs_map_update)
  moreover from ds i have "store_findOne q s = Inr (Some (ds ! i))"
    by (simp add: store_findOne_def find_first_pos_nth)
  ultimately show ?thesis using ds s' by auto
qed

text \<open>every successful \<open>update\<close> keeps the store invariant.\<close>

theorem store_update_inv: "store_inv s \<Longrightarrow> store_update q r s = Inr s' \<Longrightarrow> store_inv s'"
  by (auto simp: store_update_Inr store_inv_def dest!: first_pos_Some intro!: docs_inv_update)

text \<open>every successful \<open>insert\<close> keeps the store invariant.\<close>

theorem store_insert_inv: "store_inv s \<Longrightarrow> store_insert r s = Inr (t, s') \<Longrightarrow> store_inv s'"
  by (auto simp: store_insert_Inr store_inv_def intro!: docs_inv_snoc)

text \<open>every successful \<open>remove\<close> keeps the store invariant.\<close>

theorem store_remove_inv: "store_inv s \<Longrightarrow> store_remove q s = Inr s' \<Longrightarrow> store_inv s'"
  by (auto simp: store_remove_Inr store_inv_def dest!: first_pos_Some intro!: docs_inv_remove_nth)

end
