(* ===== verification/Status_Filter.thy ===== *)
theory Status_Filter
  imports Todo_Types
begin

text \<open>
  The status deriver of the repository's \<open>utils/filter\<close> module (outside \<open>src/\<close>),
  modelled from the specification, section 4.3: \<open>date\<close> (formatDeadline),
  \<open>findScripts\<close> (hasEmbeddedScript), \<open>isTimeout\<close> (isTimedOut), \<open>colorOfTask\<close>,
  \<open>symbolOfTask\<close> and \<open>strEllipsis\<close> (truncate).

  The schedule library and the wall clock are an interface, the record \<open>clock\<close>: the
  current time, the deadline a schedule expression designates (\<open>None\<close> when the
  expression does not parse) and the rendering of a time. Every lemma below holds for
  every clock; witnesses use the concrete clock \<open>demo_clock\<close>. One clock is read per
  command run.

  Glyphs are UTF-8 byte strings (HOL characters are bytes).
\<close>

record clock =
  now :: int
  deadline_of :: "string \<Rightarrow> int option"
  render_time :: "int \<Rightarrow> string"

datatype color_token = Neutral | Warning | Done

definition hollow_dot :: string where
  "hollow_dot = [CHR 0xE2, CHR 0x9A, CHR 0xAC]"

definition filled_dot :: string where
  "filled_dot = [CHR 0xE2, CHR 0x97, CHR 0x8F]"

definition ellipsis_mark :: string where
  "ellipsis_mark = [CHR 0xE2, CHR 0x80, CHR 0xA6]"

text \<open>\<open>date\<close>: the rendered deadline, or the empty string when there is none or the
  expression does not parse (a parse failure is never raised).\<close>

definition date :: "clock \<Rightarrow> string option \<Rightarrow> string" where
  "date ck cron =
     (case cron of
       None \<Rightarrow> []
     | Some c \<Rightarrow> (case deadline_of ck c of None \<Rightarrow> [] | Some t \<Rightarrow> render_time ck t))"

text \<open>
  \<open>findScripts\<close>: the description holds a shell-command fragment, written between
  backticks. Backticks pair up from the left; a pair enclosing at least one character
  is a fragment.
\<close>

definition backtick :: char where
  "backtick = CHR 0x60"

function findScripts :: "string \<Rightarrow> bool" where
  "findScripts [] = False"
| "findScripts (c # cs) =
     (if c = backtick then
        (case first_pos (\<lambda>x. x = backtick) cs of
          None \<Rightarrow> False
        | Some i \<Rightarrow> 0 < i \<or> findScripts (drop (Suc i) cs))
      else findScripts cs)"
  by pat_completeness auto
termination
  by (relation "measure length") auto

definition isTimeout :: "clock \<Rightarrow> todo_item \<Rightarrow> bool" where
  "isTimeout ck t =
     (case cronTime t of
       None \<Rightarrow> False
     | Some c \<Rightarrow> (case deadline_of ck c of None \<Rightarrow> False | Some d \<Rightarrow> d < now ck))"

definition colorOfTask :: "clock \<Rightarrow> todo_item \<Rightarrow> color_token" where
  "colorOfTask ck t =
     (case status t of
       Solved \<Rightarrow> Done
     | Unsolved \<Rightarrow> if isTimeout ck t then Warning else Neutral)"

definition symbolOfTask :: "todo_item \<Rightarrow> string" where
  "symbolOfTask t = (case status t of Unsolved \<Rightarrow> hollow_dot | Solved \<Rightarrow> filled_dot)"

text \<open>
  \<open>strEllipsis s n\<close>: \<open>s\<close> when it is at most \<open>n\<close> characters long, otherwise its first
  \<open>n\<close> characters (none when \<open>n \<le> 0\<close>) followed by the ellipsis mark.
\<close>

definition strEllipsis :: "string \<Rightarrow> int \<Rightarrow> string" where
  "strEllipsis s n = (if int (length s) \<le> n then s else take (nat n) s @ ellipsis_mark)"

section \<open>Properties\<close>

lemma strEllipsis_idem: "strEllipsis (strEllipsis s n) n = strEllipsis s n"
  by (auto simp: strEllipsis_def ellipsis_mark_def min_def)

lemma strEllipsis_length:
  "int (length (strEllipsis s n)) \<le> max n 0 + int (length ellipsis_mark)"
  by (auto simp: strEllipsis_def)

lemma strEllipsis_prefix: "take (nat n) (strEllipsis s n) = take (nat n) s"
  by (auto simp: strEllipsis_def min_def)

lemma colorOfTask_total: "colorOfTask ck t \<in> {Neutral, Warning, Done}"
  by (cases "colorOfTask ck t") auto

lemma isTimeout_no_deadline: "cronTime t = None \<Longrightarrow> \<not> isTimeout ck t"
  by (simp add: isTimeout_def)

lemma date_empty_iff:
  "(\<forall>x. render_time ck x \<noteq> []) \<Longrightarrow>
   date ck cron = [] \<longleftrightarrow> (case cron of None \<Rightarrow> True | Some c \<Rightarrow> deadline_of ck c = None)"
  by (auto simp: date_def split: option.splits)

section \<open>A concrete clock\<close>

text \<open>
  For the witnesses: time in minutes, a schedule expression that is a decimal number
  of minutes designates that minute, and a time renders as its decimal digits.
\<close>

fun digits_value :: "nat \<Rightarrow> string \<Rightarrow> nat option" where
  "digits_value acc [] = Some acc"
| "digits_value acc (c # cs) =
     (let d = (of_char c :: nat) in
      if 48 \<le> d \<and> d \<le> 57 then digits_value (10 * acc + (d - 48)) cs else None)"

fun render_digits :: "nat \<Rightarrow> string" where
  "render_digits n =
     (if n < 10 then [char_of (48 + n)] else render_digits (n div 10) @ [char_of (48 + n mod 10)])"

definition demo_clock :: clock where
  "demo_clock =
     \<lparr>now = 1000,
      deadline_of = (\<lambda>s. if s = [] then None else map_option int (digits_value 0 s)),
      render_time = (\<lambda>t. render_digits (nat t))\<rparr>"

end
