(* ===== verification/Js_Runtime.thy ===== *)
theory Js_Runtime
  imports Prelude
begin

text \<open>
  The parts of the JavaScript runtime whose behaviour the todo-show command depends on:
  the unary plus on a command-line argument (ECMAScript StringToNumber), the decimal
  rendering of an integer in a template literal, and the truthiness of the positional
  argument. Only what decides which task is selected is kept of a number: an integer
  value, or \<open>None\<close> for NaN, the infinities and every non-integral value, none of
  which equals a task's index. Magnitudes above \<open>2^53\<close>, where a double no longer
  holds every integer, are \<open>None\<close> as well; they lie outside the model. A decimal
  literal whose exact value is not an integer is \<open>None\<close> even when JavaScript rounds it
  to an integral double (more than 17 significant digits, e.g. \<open>2.00000000000000000001\<close>,
  which JavaScript reads as 2): the model does not round. Strings are UTF-8 byte
  strings, and the white space StringToNumber trims is the whole ECMAScript set
  (WhiteSpace and LineTerminator), each code point as its UTF-8 byte sequence.
\<close>

section \<open>Digits\<close>

definition js_ws :: "char \<Rightarrow> bool" where
  "js_ws c \<longleftrightarrow> (of_char c :: nat) \<in> {9, 10, 11, 12, 13, 32}"

text \<open>The ECMAScript white space and line terminators as UTF-8 byte sequences: the ASCII
  ones, U+00A0, U+1680, U+2000 to U+200A, U+2028, U+2029, U+202F, U+205F, U+3000 and
  U+FEFF.\<close>

definition js_ws_seqs :: "string list" where
  "js_ws_seqs =
     [[CHR 0x09], [CHR 0x0A], [CHR 0x0B], [CHR 0x0C], [CHR 0x0D], [CHR 0x20],
      [CHR 0xC2, CHR 0xA0], [CHR 0xE1, CHR 0x9A, CHR 0x80]] @
     map (\<lambda>b. [CHR 0xE2, CHR 0x80, b])
       [CHR 0x80, CHR 0x81, CHR 0x82, CHR 0x83, CHR 0x84, CHR 0x85, CHR 0x86, CHR 0x87,
        CHR 0x88, CHR 0x89, CHR 0x8A, CHR 0xA8, CHR 0xA9, CHR 0xAF] @
     [[CHR 0xE2, CHR 0x81, CHR 0x9F], [CHR 0xE3, CHR 0x80, CHR 0x80], [CHR 0xEF, CHR 0xBB, CHR 0xBF]]"

text \<open>Dropping white-space sequences from the front of a byte string.\<close>

function strip_ws :: "string list \<Rightarrow> string \<Rightarrow> string" where
  "strip_ws ws s =
     (case find (\<lambda>w. w \<noteq> [] \<and> take (length w) s = w) ws of
       None \<Rightarrow> s
     | Some w \<Rightarrow> strip_ws ws (drop (length w) s))"
  by pat_completeness auto
termination
proof (relation "measure (\<lambda>(ws, s). length s)")
  fix ws s w
  assume "find (\<lambda>w. w \<noteq> [] \<and> take (length w) s = w) ws = Some w"
  then have "w \<noteq> []" and "take (length w) s = w" by (auto simp: find_Some_iff)
  then have "s \<noteq> []" by auto
  with \<open>w \<noteq> []\<close> show "((ws, drop (length w) s), ws, s) \<in> measure (\<lambda>(ws, s). length s)" by simp
qed simp

declare strip_ws.simps [simp del]

definition js_trim :: "string \<Rightarrow> string" where
  "js_trim s = rev (strip_ws (map rev js_ws_seqs) (rev (strip_ws js_ws_seqs s)))"

text \<open>The value of a digit in radix \<open>b\<close> (letters for the digits above nine).\<close>

definition digit_of :: "nat \<Rightarrow> char \<Rightarrow> nat option" where
  "digit_of b c =
     (let n = (of_char c :: nat);
          d = (if 48 \<le> n \<and> n \<le> 57 then n - 48
               else if 97 \<le> n \<and> n \<le> 122 then n - 87
               else if 65 \<le> n \<and> n \<le> 90 then n - 55 else b)
      in if d < b then Some d else None)"

fun digits_acc :: "nat \<Rightarrow> nat \<Rightarrow> string \<Rightarrow> nat option" where
  "digits_acc b acc [] = Some acc"
| "digits_acc b acc (c # cs) =
     (case digit_of b c of None \<Rightarrow> None | Some d \<Rightarrow> digits_acc b (b * acc + d) cs)"

definition radix_value :: "nat \<Rightarrow> string \<Rightarrow> nat option" where
  "radix_value b s = (if s = [] then None else digits_acc b 0 s)"

definition split_first :: "(char \<Rightarrow> bool) \<Rightarrow> string \<Rightarrow> string \<times> string option" where
  "split_first P s =
     (case first_pos P s of None \<Rightarrow> (s, None) | Some i \<Rightarrow> (take i s, Some (drop (Suc i) s)))"

section \<open>StringToNumber\<close>

text \<open>The exponent of a decimal literal: optionally signed digits.\<close>

definition signed_digits :: "string \<Rightarrow> int option" where
  "signed_digits s =
     (case s of
       [] \<Rightarrow> None
     | c # cs \<Rightarrow>
         if c = CHR ''+'' then map_option int (radix_value 10 cs)
         else if c = CHR ''-'' then map_option (\<lambda>n. - int n) (radix_value 10 cs)
         else map_option int (radix_value 10 s))"

text \<open>
  An unsigned decimal literal \<open>digits [. digits] [e exponent]\<close> (either digit run may be
  empty, not both) as a pair \<open>(m, x)\<close> of value \<open>m * 10 ^ x\<close>.
\<close>

definition unsigned_decimal :: "string \<Rightarrow> (nat \<times> int) option" where
  "unsigned_decimal s =
     (let (m, e) = split_first (\<lambda>c. c = CHR ''e'' \<or> c = CHR ''E'') s;
          (ip, fp) = split_first (\<lambda>c. c = CHR ''.'') m;
          fd = (case fp of None \<Rightarrow> [] | Some f \<Rightarrow> f)
      in if ip = [] \<and> fd = [] then None
         else
           (case (if ip = [] then Some 0 else radix_value 10 ip,
                  if fd = [] then Some 0 else radix_value 10 fd,
                  case e of None \<Rightarrow> Some 0 | Some es \<Rightarrow> signed_digits es) of
             (Some a, Some b, Some x) \<Rightarrow> Some (a * 10 ^ length fd + b, x - int (length fd))
           | _ \<Rightarrow> None))"

text \<open>The integer \<open>m * 10 ^ x\<close>, when it is one (up to the \<open>2^53\<close> bound).\<close>

definition exact_int :: "nat \<times> int \<Rightarrow> int option" where
  "exact_int mx =
     (case mx of (m, x) \<Rightarrow>
       if m = 0 then Some 0
       else if 0 \<le> x then (if x \<le> 16 then Some (int m * 10 ^ nat x) else None)
       else if m mod 10 ^ nat (- x) = 0 then Some (int (m div 10 ^ nat (- x))) else None)"

definition decimal_number :: "string \<Rightarrow> int option" where
  "decimal_number s =
     (case s of
       [] \<Rightarrow> None
     | c # cs \<Rightarrow>
         if c = CHR ''+'' then Option.bind (unsigned_decimal cs) exact_int
         else if c = CHR ''-'' then map_option uminus (Option.bind (unsigned_decimal cs) exact_int)
         else Option.bind (unsigned_decimal s) exact_int)"

text \<open>Binary, octal and hexadecimal literals: \<open>0b\<close>, \<open>0o\<close>, \<open>0x\<close>, no sign.\<close>

definition radix_prefix :: "char \<Rightarrow> nat option" where
  "radix_prefix c =
     (if c = CHR ''x'' \<or> c = CHR ''X'' then Some 16
      else if c = CHR ''o'' \<or> c = CHR ''O'' then Some 8
      else if c = CHR ''b'' \<or> c = CHR ''B'' then Some 2 else None)"

definition numeric_literal :: "string \<Rightarrow> int option" where
  "numeric_literal s =
     (case s of
       c # d # rest \<Rightarrow>
         (if c = CHR ''0'' \<and> radix_prefix d \<noteq> None
          then map_option int (radix_value (the (radix_prefix d)) rest)
          else decimal_number s)
     | _ \<Rightarrow> decimal_number s)"

definition js_to_number :: "string \<Rightarrow> int option" where
  "js_to_number str =
     (let s = js_trim str
      in if s = [] then Some 0
         else (case numeric_literal s of
                 Some i \<Rightarrow> if \<bar>i\<bar> \<le> 2 ^ 53 then Some i else None
               | None \<Rightarrow> None))"

section \<open>Integers in template literals\<close>

fun show_nat :: "nat \<Rightarrow> string" where
  "show_nat n =
     (if n < 10 then [char_of (48 + n)] else show_nat (n div 10) @ [char_of (48 + n mod 10)])"

definition show_int :: "int \<Rightarrow> string" where
  "show_int i = (if i < 0 then CHR ''-'' # show_nat (nat (- i)) else show_nat (nat i))"

section \<open>Printing an integer and reading it back\<close>

declare show_nat.simps [simp del]

lemma digits_acc_snoc:
  "digits_acc b acc (xs @ [c]) = Option.bind (digits_acc b acc xs) (\<lambda>a. map_option (\<lambda>d. b * a + d) (digit_of b c))"
  by (induction xs arbitrary: acc) (auto split: option.splits)

lemma digit_of_show: "d < 10 \<Longrightarrow> digit_of 10 (char_of (48 + d)) = Some d"
  by (simp add: digit_of_def)

lemma show_nat_small: "n < 10 \<Longrightarrow> show_nat n = [char_of (48 + n)]"
  by (subst show_nat.simps) simp

lemma show_nat_big: "\<not> n < 10 \<Longrightarrow> show_nat n = show_nat (n div 10) @ [char_of (48 + n mod 10)]"
  by (subst show_nat.simps) simp

lemma show_nat_value: "digits_acc 10 0 (show_nat n) = Some n"
proof (induction n rule: show_nat.induct)
  case (1 n)
  show ?case
  proof (cases "n < 10")
    case True
    then show ?thesis by (simp add: show_nat_small digit_of_show)
  next
    case False
    with "1.IH" show ?thesis
      by (simp add: show_nat_big digits_acc_snoc digit_of_show)
  qed
qed

definition is_digit :: "char \<Rightarrow> bool" where
  "is_digit c \<longleftrightarrow> 48 \<le> (of_char c :: nat) \<and> (of_char c :: nat) \<le> 57"

lemma is_digit_show: "k < (10::nat) \<Longrightarrow> is_digit (char_of (48 + k))"
  by (simp add: is_digit_def)

lemma show_nat_digits: "\<forall>c\<in>set (show_nat n). is_digit c"
proof (induction n rule: show_nat.induct)
  case (1 n)
  show ?case
  proof (cases "n < 10")
    case True
    then show ?thesis by (simp add: show_nat_small is_digit_show)
  next
    case False
    with "1.IH" show ?thesis by (simp add: show_nat_big is_digit_show)
  qed
qed

lemma show_nat_not_Nil [simp]: "show_nat n \<noteq> []"
  by (cases "n < 10") (simp_all add: show_nat_small show_nat_big)

lemma digit_not_special:
  assumes "is_digit c"
  shows "\<not> js_ws c \<and> c \<noteq> CHR ''e'' \<and> c \<noteq> CHR ''E'' \<and> c \<noteq> CHR ''.'' \<and>
     c \<noteq> CHR ''+'' \<and> c \<noteq> CHR ''-'' \<and> radix_prefix c = None"
proof -
  have n: "48 \<le> (of_char c :: nat)" "(of_char c :: nat) \<le> 57"
    using assms by (simp_all add: is_digit_def)
  have ne: "c \<noteq> d" if "(of_char d :: nat) < 48 \<or> 57 < (of_char d :: nat)" for d
    using that n by auto
  show ?thesis
    using n ne [of "CHR ''e''"] ne [of "CHR ''E''"] ne [of "CHR ''.''"] ne [of "CHR ''+''"]
      ne [of "CHR ''-''"] ne [of "CHR ''x''"] ne [of "CHR ''X''"] ne [of "CHR ''o''"]
      ne [of "CHR ''O''"] ne [of "CHR ''b''"] ne [of "CHR ''B''"]
    by (simp add: js_ws_def radix_prefix_def)
qed

lemma strip_ws_stop:
  "\<forall>w\<in>set ws. w = [] \<or> hd w \<noteq> c \<Longrightarrow> strip_ws ws (c # rest) = c # rest"
proof -
  assume h: "\<forall>w\<in>set ws. w = [] \<or> hd w \<noteq> c"
  have "\<not> (w \<noteq> [] \<and> take (length w) (c # rest) = w)" if "w \<in> set ws" for w
    using h that by (cases w) auto
  then have "find (\<lambda>w. w \<noteq> [] \<and> take (length w) (c # rest) = w) ws = None"
    by (simp add: find_None_iff)
  then show ?thesis by (simp add: strip_ws.simps)
qed

lemma strip_ws_single:
  assumes c: "[c] \<in> set ws" and only: "\<forall>w\<in>set ws. w \<noteq> [] \<and> hd w = c \<longrightarrow> w = [c]"
  shows "strip_ws ws (c # rest) = strip_ws ws rest"
proof -
  let ?P = "\<lambda>w. w \<noteq> [] \<and> take (length w) (c # rest) = w"
  from c have "find ?P ws \<noteq> None" by (auto simp: find_None_iff)
  then obtain w where w: "find ?P ws = Some w" by blast
  then have "w \<in> set ws" "w \<noteq> []" "take (length w) (c # rest) = w"
    by (auto simp: find_Some_iff)
  then have "hd w = hd (take (length w) (c # rest))" by simp
  also have "\<dots> = c" using \<open>w \<noteq> []\<close> by (simp add: hd_take)
  finally have "hd w = c" .
  with only \<open>w \<in> set ws\<close> \<open>w \<noteq> []\<close> have "w = [c]" by blast
  with w show ?thesis by (simp add: strip_ws.simps)
qed

lemma js_ws_cases: "js_ws c \<Longrightarrow> c \<in> {CHR 0x09, CHR 0x0A, CHR 0x0B, CHR 0x0C, CHR 0x0D, CHR 0x20}"
proof -
  assume "js_ws c"
  then have "(of_char c :: nat) \<in> {9, 10, 11, 12, 13, 32}" by (simp add: js_ws_def)
  then show ?thesis by (auto simp flip: of_char_eq_iff [where 'a = nat])
qed

lemma js_ws_seqs_single:
  "js_ws c \<Longrightarrow> [c] \<in> set js_ws_seqs \<and> (\<forall>w\<in>set js_ws_seqs. w \<noteq> [] \<and> hd w = c \<longrightarrow> w = [c])"
  by (drule js_ws_cases) (auto simp: js_ws_seqs_def)

lemma js_ws_seqs_rev_single:
  "js_ws c \<Longrightarrow> [c] \<in> set (map rev js_ws_seqs) \<and>
     (\<forall>w\<in>set (map rev js_ws_seqs). w \<noteq> [] \<and> hd w = c \<longrightarrow> w = [c])"
  by (drule js_ws_cases) (auto simp: js_ws_seqs_def)

lemma strip_ws_pad:
  "\<forall>c\<in>set p. js_ws c \<Longrightarrow> strip_ws js_ws_seqs (p @ s) = strip_ws js_ws_seqs s"
proof (induction p)
  case Nil
  then show ?case by simp
next
  case (Cons a p)
  then have "js_ws a" by simp
  from js_ws_seqs_single [OF this] have c1: "[a] \<in> set js_ws_seqs"
    and c2: "\<forall>w\<in>set js_ws_seqs. w \<noteq> [] \<and> hd w = a \<longrightarrow> w = [a]" by blast+
  have "strip_ws js_ws_seqs (a # (p @ s)) = strip_ws js_ws_seqs (p @ s)"
    by (rule strip_ws_single [OF c1 c2])
  with Cons show ?case by simp
qed

lemma strip_ws_pad_rev:
  "\<forall>c\<in>set p. js_ws c \<Longrightarrow> strip_ws (map rev js_ws_seqs) (p @ s) = strip_ws (map rev js_ws_seqs) s"
proof (induction p)
  case Nil
  then show ?case by simp
next
  case (Cons a p)
  then have "js_ws a" by simp
  from js_ws_seqs_rev_single [OF this] have c1: "[a] \<in> set (map rev js_ws_seqs)"
    and c2: "\<forall>w\<in>set (map rev js_ws_seqs). w \<noteq> [] \<and> hd w = a \<longrightarrow> w = [a]" by blast+
  have "strip_ws (map rev js_ws_seqs) (a # (p @ s)) = strip_ws (map rev js_ws_seqs) (p @ s)"
    by (rule strip_ws_single [OF c1 c2])
  with Cons show ?case by simp
qed

lemma digit_not_ws_start:
  "is_digit c \<or> c = CHR ''-'' \<Longrightarrow>
   (\<forall>w\<in>set js_ws_seqs. w = [] \<or> hd w \<noteq> c) \<and> (\<forall>w\<in>set (map rev js_ws_seqs). w = [] \<or> hd w \<noteq> c)"
  by (auto simp: js_ws_seqs_def is_digit_def)

lemma split_first_none: "\<forall>c\<in>set s. \<not> P c \<Longrightarrow> split_first P s = (s, None)"
proof -
  assume "\<forall>c\<in>set s. \<not> P c"
  then have "first_pos P s = None" by simp
  then show ?thesis unfolding split_first_def by (simp del: first_pos_None_iff)
qed

lemma unsigned_decimal_digits:
  assumes "\<forall>c\<in>set s. is_digit c" and "s \<noteq> []"
  shows "unsigned_decimal s = map_option (\<lambda>n. (n, 0)) (radix_value 10 s)"
proof -
  from assms(1) have "\<forall>c\<in>set s. \<not> (c = CHR ''e'' \<or> c = CHR ''E'')" and "\<forall>c\<in>set s. \<not> c = CHR ''.''"
    by (auto dest: digit_not_special)
  then show ?thesis
    using assms(2) by (simp add: unsigned_decimal_def split_first_none split: option.split)
qed

lemma numeric_literal_decimal:
  "\<forall>d\<in>set (tl s). radix_prefix d = None \<Longrightarrow> numeric_literal s = decimal_number s"
proof (cases s)
  case Nil
  then show ?thesis by (simp add: numeric_literal_def)
next
  case (Cons c cs)
  assume "\<forall>d\<in>set (tl s). radix_prefix d = None"
  with Cons show ?thesis by (cases cs) (simp_all add: numeric_literal_def)
qed

lemma radix_value_show_nat: "radix_value 10 (show_nat n) = Some n"
  by (simp add: radix_value_def show_nat_value)

lemma unsigned_show_nat: "Option.bind (unsigned_decimal (show_nat n)) exact_int = Some (int n)"
  using show_nat_digits [of n]
  by (simp add: unsigned_decimal_digits radix_value_show_nat exact_int_def)

lemma show_nat_no_ws: "\<forall>c\<in>set (show_nat n). \<not> js_ws c"
  using show_nat_digits [of n] digit_not_special by blast

lemma show_nat_no_prefix: "\<forall>c\<in>set (show_nat n). radix_prefix c = None"
  using show_nat_digits [of n] digit_not_special by blast

lemma show_int_chars: "\<forall>c\<in>set (show_int i). \<not> js_ws c"
  using show_nat_no_ws [of "nat (- i)"] show_nat_no_ws [of "nat i"]
  by (simp add: show_int_def js_ws_def)

lemma show_int_tl: "\<forall>d\<in>set (tl (show_int i)). radix_prefix d = None"
proof (cases "i < 0")
  case True
  then show ?thesis using show_nat_no_prefix [of "nat (- i)"] by (simp add: show_int_def)
next
  case False
  then show ?thesis using show_nat_no_prefix [of "nat i"]
    by (cases "show_nat (nat i)") (simp_all add: show_int_def)
qed

lemma show_int_not_Nil [simp]: "show_int i \<noteq> []"
  by (simp add: show_int_def)

lemma js_trim_padded:
  assumes p: "\<forall>c\<in>set p. js_ws c" and q: "\<forall>c\<in>set q. js_ws c"
    and s: "s = c # cs" and c: "is_digit c \<or> c = CHR ''-''" and l: "is_digit (last s)"
  shows "js_trim (p @ s @ q) = s"
proof -
  have "strip_ws js_ws_seqs (p @ s @ q) = s @ q"
    using p s digit_not_ws_start [OF c] by (simp add: strip_ws_pad strip_ws_stop)
  moreover have "strip_ws (map rev js_ws_seqs) (rev q @ rev s) = rev s"
  proof -
    have "s \<noteq> []" using s by simp
    then have r: "rev s = last s # rev (butlast s)"
      by (metis append_butlast_last_id rev_eq_Cons_iff rev_rev_ident)
    have "strip_ws (map rev js_ws_seqs) (rev q @ rev s) = strip_ws (map rev js_ws_seqs) (rev s)"
      by (rule strip_ws_pad_rev) (use q in simp)
    also have "\<dots> = rev s"
      unfolding r by (rule strip_ws_stop) (use digit_not_ws_start [of "last s"] l in blast)
    finally show ?thesis .
  qed
  ultimately show ?thesis by (simp add: js_trim_def)
qed

lemma show_int_shape:
  "\<exists>c cs. show_int i = c # cs \<and> (is_digit c \<or> c = CHR ''-'') \<and> is_digit (last (show_int i))"
proof -
  obtain d ds where d: "show_nat (nat (if i < 0 then - i else i)) = d # ds"
    by (cases "show_nat (nat (if i < 0 then - i else i))") auto
  have dig: "\<forall>c\<in>set (d # ds). is_digit c" using show_nat_digits d by metis
  then have "is_digit (last (d # ds))" by simp
  with d dig show ?thesis by (cases "i < 0") (auto simp: show_int_def)
qed

text \<open>Reading back, with the unary plus, the decimal text a template literal prints for an
  integer gives that integer again.\<close>

lemma js_to_number_show_int: "\<bar>i\<bar> \<le> 2 ^ 53 \<Longrightarrow> js_to_number (show_int i) = Some i"
proof -
  assume b: "\<bar>i\<bar> \<le> 2 ^ 53"
  have dec: "decimal_number (show_int i) = Some i"
  proof (cases "i < 0")
    case True
    then show ?thesis
      by (simp add: show_int_def decimal_number_def unsigned_show_nat)
  next
    case False
    obtain c cs where cs: "show_nat (nat i) = c # cs"
      by (cases "show_nat (nat i)") auto
    with show_nat_digits [of "nat i"] have "c \<noteq> CHR ''+'' \<and> c \<noteq> CHR ''-''"
      by (auto dest: digit_not_special)
    with False cs unsigned_show_nat [of "nat i"] show ?thesis
      by (simp add: show_int_def decimal_number_def)
  qed
  have "js_trim (show_int i) = show_int i"
    using show_int_shape [of i] js_trim_padded [of "[]" "[]" "show_int i"] by auto
  with b dec show ?thesis
    by (simp add: js_to_number_def numeric_literal_decimal show_int_tl)
qed

text \<open>C10: round trip. A command-line argument holding the decimal text of an index, with
  any blanks around it, is read by the unary plus as that index.\<close>

theorem js_to_number_padded_show_int:
  assumes "\<forall>c\<in>set p. js_ws c" and "\<forall>c\<in>set q. js_ws c" and "\<bar>i\<bar> \<le> 2 ^ 53"
  shows "js_to_number (p @ show_int i @ q) = Some i"
proof -
  have "js_trim (p @ show_int i @ q) = show_int i"
    using assms(1,2) show_int_shape [of i] js_trim_padded by blast
  moreover have "js_trim (show_int i) = show_int i"
    using show_int_shape [of i] js_trim_padded [of "[]" "[]" "show_int i"] by auto
  ultimately have "js_to_number (p @ show_int i @ q) = js_to_number (show_int i)"
    by (simp add: js_to_number_def)
  with js_to_number_show_int [OF assms(3)] show ?thesis by simp
qed

end
