(* ===== verification/Todo_Show.thy ===== *)
theory Todo_Show
  imports Store Status_Filter Js_Runtime
begin

text \<open>
  The todo-show command, src/src/bin/todo-show.ts: one run reads the whole collection,
  then shows the error line, the editor, one task or the list. A run is a function of
  the clock, the parsed command line, what the user types at the prompts and the
  store; it returns how the run ended, the console lines it printed and the store it
  leaves. Console output is a list of lines, one per \<open>console.log\<close> call; a line is
  a list of pieces of text, each in one colour (the yellow \<open>#E79627\<close> accent, the
  colour \<open>colorOfTask\<close> chooses, or none).
\<close>

section \<open>Console and run results\<close>

datatype style = Plain | Accent | Hue color_token

type_synonym out_line = "(style \<times> string) list"

datatype run_error = Store_failure store_error | Type_error

text \<open>
  \<open>Crashed\<close> is an unhandled rejection of the command's promise (the process prints the
  error and exits non-zero); \<open>Interrupted\<close> is a prompt the user left without a valid
  answer.
\<close>

datatype outcome = Completed | Crashed run_error | Interrupted

record run =
  run_outcome :: outcome
  run_output :: "out_line list"
  run_store :: store

definition newline :: string where
  "newline = [CHR 0x0A]"

definition down_arrow :: string where
  "down_arrow = [CHR 0xE2, CHR 0x86, CHR 0x93]"

section \<open>Command line (lines 11-16)\<close>

text \<open>
  \<open>commander\<close> yields the \<open>--edit\<close> flag and the positional arguments. \<open>index\<close> is
  \<open>0\<close> when there is no argument and the first argument otherwise; the command tests it
  for truthiness, so it selects a task exactly when the first argument is a non-empty
  string (\<open>"0"\<close> included).
\<close>

record cli_args =
  edit_opt :: bool
  args :: "string list"

definition cli_index :: "cli_args \<Rightarrow> string option" where
  "cli_index cl = (case args cl of [] \<Rightarrow> None | a # _ \<Rightarrow> if a = [] then None else Some a)"

section \<open>Prompts (lines 18-30, 38)\<close>

text \<open>
  \<open>makeTaskQuestions\<close>: a title input defaulting to the task's title, validated by
  \<open>v => !!v\<close>, and an editor prefilled with the description. \<open>inquirer\<close> answers an
  empty entry with the default, then validates; an invalid answer is asked again. The
  user's side is the list of title entries typed, in order, and the text saved from the
  editor; running out of entries before a valid one is the user leaving the prompt.
\<close>

record task_questions =
  title_default :: string
  description_default :: string

definition makeTaskQuestions :: "todo_item \<Rightarrow> task_questions" where
  "makeTaskQuestions t = \<lparr>title_default = title t, description_default = description t\<rparr>"

definition validate_title :: "string \<Rightarrow> bool" where
  "validate_title v \<longleftrightarrow> v \<noteq> []"

record user_input =
  title_entries :: "string list"
  editor_text :: string

record answer =
  ans_title :: string
  ans_description :: string

fun ask_title :: "string \<Rightarrow> string list \<Rightarrow> string option" where
  "ask_title d [] = None"
| "ask_title d (e # es) =
     (let v = (if e = [] then d else e) in if validate_title v then Some v else ask_title d es)"

definition prompt :: "task_questions \<Rightarrow> user_input \<Rightarrow> answer option" where
  "prompt qs ui =
     map_option (\<lambda>v. \<lparr>ans_title = v, ans_description = editor_text ui\<rparr>)
       (ask_title (title_default qs) (title_entries ui))"

section \<open>The editor (lines 32-46)\<close>

definition showError :: "out_line list" where
  "showError = [[(Plain, ''Nothing needs to do.'' @ newline)]]"

text \<open>\<open>answer.description.replace(/\n/g, '. ')\<close>\<close>

definition flatten_description :: "string \<Rightarrow> string" where
  "flatten_description d = replace_all (CHR 0x0A) ''. '' d"

text \<open>\<open>Object.assign({}, task, answer)\<close>: the answer's two fields over the task.\<close>

definition merge_answer :: "todo_item \<Rightarrow> answer \<Rightarrow> todo_item" where
  "merge_answer t a = t\<lparr>title := ans_title a, description := ans_description a\<rparr>"

definition showEditor :: "int option \<Rightarrow> user_input \<Rightarrow> store \<Rightarrow> run" where
  "showEditor n ui s =
     (let out0 = [[(Plain, '' '')]] in
      case store_findOne [Index_is n] s of
        Inl e \<Rightarrow> \<lparr>run_outcome = Crashed (Store_failure e), run_output = out0, run_store = s\<rparr>
      | Inr None \<Rightarrow> \<lparr>run_outcome = Crashed Type_error, run_output = out0, run_store = s\<rparr>
      | Inr (Some t) \<Rightarrow>
          (case prompt (makeTaskQuestions t) ui of
            None \<Rightarrow> \<lparr>run_outcome = Interrupted, run_output = out0, run_store = s\<rparr>
          | Some a \<Rightarrow>
              (let d = ans_description a;
                   out1 = out0 @ (if d \<noteq> [] then [[(Plain, d)]] else []);
                   a' = (if d \<noteq> [] then a\<lparr>ans_description := flatten_description d\<rparr> else a)
               in case store_update [Id_is (item_id t)] (merge_answer t a') s of
                    Inl e \<Rightarrow> \<lparr>run_outcome = Crashed (Store_failure e), run_output = out1, run_store = s\<rparr>
                  | Inr s' \<Rightarrow> \<lparr>run_outcome = Completed,
                               run_output = out1 @ [[(Plain, ''task updated.'' @ newline)]],
                               run_store = s'\<rparr>)))"

section \<open>One task (lines 48-70)\<close>

text \<open>
  The number the header prints is the value of \<open>+index\<close>; a task is only shown when it
  equals the task's index, so it is an integer there. (\<open>None\<close> stands for NaN and for
  non-integral numbers; only NaN's text is written out.)
\<close>

definition number_text :: "int option \<Rightarrow> string" where
  "number_text n = (case n of Some i \<Rightarrow> show_int i | None \<Rightarrow> ''NaN'')"

definition script_resolved :: "clock \<Rightarrow> todo_item \<Rightarrow> bool" where
  "script_resolved ck t \<longleftrightarrow> findScripts (description t) \<and> isTimeout ck t"

definition task_lines :: "clock \<Rightarrow> int option \<Rightarrow> todo_item \<Rightarrow> out_line list" where
  "task_lines ck n t =
     (let time = date ck (cronTime t);
          timeStatus = (if time \<noteq> [] then ''(limit: '' @ time @ '')'' else []);
          scriptStatus = (if script_resolved ck t then ''(bash resolved)'' else []);
          tipsText = ''TASK ['' @ number_text n @ ''] '' @ timeStatus @ scriptStatus @ '': ''
      in [[(Accent, tipsText)],
          [(Hue (colorOfTask ck t), symbolOfTask t @ '' '' @ title t)],
          [(Plain, ''  '' @ description t)]] @
         (if item_notes t \<noteq> []
          then [(Accent, ''NOTES:'')] # map (\<lambda>note. [(Plain, ''  '' @ note)]) (item_notes t)
          else []) @
         [[(Plain, '' '')]])"

text \<open>A failed read is caught (\<open>catch\<close>) and shown as the error line.\<close>

definition showTask :: "clock \<Rightarrow> int option \<Rightarrow> store \<Rightarrow> out_line list" where
  "showTask ck n s =
     (case store_findOne [Index_is n] s of
       Inl _ \<Rightarrow> showError
     | Inr None \<Rightarrow> showError
     | Inr (Some t) \<Rightarrow> if item_id t = 0 then showError else task_lines ck n t)"

section \<open>The list (lines 82-92)\<close>

definition status_glyph :: "todo_item \<Rightarrow> string" where
  "status_glyph t = (if status t = Unsolved then hollow_dot else filled_dot)"

definition item_lines :: "clock \<Rightarrow> todo_item \<Rightarrow> out_line list" where
  "item_lines ck t =
     (let text = (Hue (colorOfTask ck t),
                  status_glyph t @ '' '' @ show_int (index t) @ '' '' @ strEllipsis (title t) 50)
      in [[text, (Plain, '' ''),
           if script_resolved ck t then (Accent, ''(bash resolved)'') else (Plain, [])]] @
         (if description t \<noteq> [] then [[(Plain, ''    - '' @ strEllipsis (description t) 80)]]
          else []))"

definition list_lines :: "clock \<Rightarrow> todo_item list \<Rightarrow> out_line list" where
  "list_lines ck ts = [[(Plain, down_arrow)]] @ concat (map (item_lines ck) ts) @ [[(Plain, '' '')]]"

section \<open>The command (lines 72-93)\<close>

definition todo_show :: "clock \<Rightarrow> cli_args \<Rightarrow> user_input \<Rightarrow> store \<Rightarrow> run" where
  "todo_show ck cl ui s =
     (case store_find [] s of
       Inl e \<Rightarrow> \<lparr>run_outcome = Crashed (Store_failure e), run_output = [], run_store = s\<rparr>
     | Inr list \<Rightarrow>
         if list = [] then \<lparr>run_outcome = Completed, run_output = showError, run_store = s\<rparr>
         else (case cli_index cl of
                 Some a \<Rightarrow>
                   if edit_opt cl then showEditor (js_to_number a) ui s
                   else \<lparr>run_outcome = Completed, run_output = showTask ck (js_to_number a) s,
                         run_store = s\<rparr>
               | None \<Rightarrow> \<lparr>run_outcome = Completed, run_output = list_lines ck list, run_store = s\<rparr>))"

section \<open>The editor\<close>

lemma prompt_Some_iff:
  "prompt qs ui = Some a \<longleftrightarrow>
   (\<exists>v. ask_title (title_default qs) (title_entries ui) = Some v \<and> a = \<lparr>ans_title = v, ans_description = editor_text ui\<rparr>)"
  by (auto simp: prompt_def)

lemma flatten_description_Nil [simp]: "flatten_description [] = []"
  by (simp add: flatten_description_def)

text \<open>editing an existing task. When the index selects a task and the user answers the
  title prompt, the run completes, prints the blank line, the saved editor text when it is
  non-empty and the confirmation, and replaces the task, in its place, by the task with the
  answered title and the saved description with every newline turned into \<open>". "\<close>;
  every other field of the task is kept.\<close>

theorem showEditor_completed:
  assumes inv: "store_inv s" and ds: "docs s = Some ds"
    and t: "find (match_query [Index_is n]) ds = Some t"
    and v: "ask_title (title t) (title_entries ui) = Some v"
  shows "\<exists>i<length ds. ds ! i = t \<and>
           showEditor n ui s =
             \<lparr>run_outcome = Completed,
              run_output = [[(Plain, '' '')]] @
                (if editor_text ui \<noteq> [] then [[(Plain, editor_text ui)]] else []) @
                [[(Plain, ''task updated.'' @ newline)]],
              run_store = s\<lparr>docs := Some (ds[i := t\<lparr>title := v,
                                   description := flatten_description (editor_text ui)\<rparr>])\<rparr>\<rparr>"
proof -
  from t have "t \<in> set ds" by (auto simp: find_Some_iff)
  then obtain i where i: "i < length ds" "ds ! i = t" and
    upd: "\<And>r. store_update [Id_is (item_id t)] r s =
             Inr (s\<lparr>docs := Some (ds[i := r\<lparr>item_id := item_id t, index := index t\<rparr>])\<rparr>)"
    using store_update_by_id [OF inv ds] by blast
  have find1: "store_findOne [Index_is n] s = Inr (Some t)"
    using ds t by (simp add: store_findOne_def)
  have pr: "prompt (makeTaskQuestions t) ui = Some \<lparr>ans_title = v, ans_description = editor_text ui\<rparr>"
    using v by (simp add: prompt_def makeTaskQuestions_def)
  have run: "showEditor n ui s =
             \<lparr>run_outcome = Completed,
              run_output = [[(Plain, '' '')]] @
                (if editor_text ui \<noteq> [] then [[(Plain, editor_text ui)]] else []) @
                [[(Plain, ''task updated.'' @ newline)]],
              run_store = s\<lparr>docs := Some (ds[i := t\<lparr>title := v,
                                   description := flatten_description (editor_text ui)\<rparr>])\<rparr>\<rparr>"
    by (cases "editor_text ui = []") (simp_all add: showEditor_def find1 pr upd merge_answer_def Let_def)
  with i show ?thesis by blast
qed

lemma showEditor_missing:
  "docs s = Some ds \<Longrightarrow> \<forall>t\<in>set ds. n \<noteq> Some (index t) \<Longrightarrow>
   showEditor n ui s = \<lparr>run_outcome = Crashed Type_error, run_output = [[(Plain, '' '')]], run_store = s\<rparr>"
proof -
  assume ds: "docs s = Some ds" and none: "\<forall>t\<in>set ds. n \<noteq> Some (index t)"
  from none have "find (match_query [Index_is n]) ds = None" by (simp add: find_None_iff)
  with ds show ?thesis by (simp add: showEditor_def store_findOne_Some)
qed

lemma showEditor_interrupted:
  "store_findOne [Index_is n] s = Inr (Some t) \<Longrightarrow> ask_title (title t) (title_entries ui) = None \<Longrightarrow>
   showEditor n ui s = \<lparr>run_outcome = Interrupted, run_output = [[(Plain, '' '')]], run_store = s\<rparr>"
  by (simp add: showEditor_def prompt_def makeTaskQuestions_def)

text \<open>C19: safety. An edit that does not complete (the index selects nothing, the user leaves the prompt, or the store fails) leaves the store unchanged.\<close>

theorem showEditor_store_unchanged:
  "run_outcome (showEditor n ui s) \<noteq> Completed \<Longrightarrow> run_store (showEditor n ui s) = s"
  by (auto simp: showEditor_def Let_def split: sum.splits option.splits)

lemma ask_title_valid: "ask_title d es = Some v \<Longrightarrow> v \<noteq> []"
  by (induction es) (auto simp: validate_title_def Let_def split: if_splits)

text \<open>C25: liveness. When the task has a title, the first entry always answers the title prompt: an empty entry keeps the old title.\<close>

theorem ask_title_default: "d \<noteq> [] \<Longrightarrow> ask_title d (e # es) = Some (if e = [] then d else e)"
  by (simp add: validate_title_def)

text \<open>C20: liveness. The title prompt ends without an answer exactly when the user leaves
  it before typing any entry, or the task has no title and every entry typed is empty (an
  empty entry then takes the empty default, which validate rejects).\<close>

theorem ask_title_None_iff:
  "ask_title d es = None \<longleftrightarrow> es = [] \<or> (d = [] \<and> (\<forall>e\<in>set es. e = []))"
  by (induction es) (auto simp: validate_title_def Let_def)

lemma ask_title_idem: "ask_title d es = Some v \<Longrightarrow> ask_title v es = Some v"
proof (induction es)
  case Nil
  then show ?case by simp
next
  case (Cons e es)
  from Cons.prems have v: "v \<noteq> []" by (rule ask_title_valid)
  show ?case
  proof (cases "validate_title (if e = [] then d else e)")
    case True
    with Cons.prems v show ?thesis by (auto simp: validate_title_def)
  next
    case False
    with v show ?thesis by (auto simp: validate_title_def split: if_splits)
  qed
qed

lemma flatten_description_no_newline: "CHR 0x0A \<notin> set (flatten_description d)"
  by (simp add: flatten_description_def replace_all_notin)


section \<open>The command\<close>

text \<open>C17: error. When the collection cannot be read, the first find rejects and the run crashes with the persistence error before printing anything; the store is left as it was.\<close>

theorem todo_show_unreadable:
  "docs s = None \<Longrightarrow>
   todo_show ck cl ui s = \<lparr>run_outcome = Crashed (Store_failure PersistenceError), run_output = [], run_store = s\<rparr>"
  by (simp add: todo_show_def store_find_def)

text \<open>C16: functional. On a readable store holding no task, every run, whatever its arguments, prints "Nothing needs to do." and completes without touching the store.\<close>

theorem todo_show_empty:
  "docs s = Some [] \<Longrightarrow> todo_show ck cl ui s = \<lparr>run_outcome = Completed, run_output = showError, run_store = s\<rparr>"
  by (simp add: todo_show_def store_find_Nil)

text \<open>C24: functional. Without a selecting argument, a run over a non-empty store prints the list of all tasks in stored order and completes without touching the store.\<close>

theorem todo_show_list:
  "docs s = Some ds \<Longrightarrow> ds \<noteq> [] \<Longrightarrow> cli_index cl = None \<Longrightarrow>
   todo_show ck cl ui s = \<lparr>run_outcome = Completed, run_output = list_lines ck ds, run_store = s\<rparr>"
  by (simp add: todo_show_def store_find_Nil)

lemma todo_show_task:
  "docs s = Some ds \<Longrightarrow> ds \<noteq> [] \<Longrightarrow> cli_index cl = Some a \<Longrightarrow> \<not> edit_opt cl \<Longrightarrow>
   todo_show ck cl ui s =
     \<lparr>run_outcome = Completed, run_output = showTask ck (js_to_number a) s, run_store = s\<rparr>"
  by (simp add: todo_show_def store_find_Nil)

lemma todo_show_edit:
  "docs s = Some ds \<Longrightarrow> ds \<noteq> [] \<Longrightarrow> cli_index cl = Some a \<Longrightarrow> edit_opt cl \<Longrightarrow>
   todo_show ck cl ui s = showEditor (js_to_number a) ui s"
  by (simp add: todo_show_def store_find_Nil)

lemma todo_show_cases:
  obtains (unreadable) "docs s = None"
    "todo_show ck cl ui s = \<lparr>run_outcome = Crashed (Store_failure PersistenceError), run_output = [], run_store = s\<rparr>"
  | (empty) "docs s = Some []" "todo_show ck cl ui s = \<lparr>run_outcome = Completed, run_output = showError, run_store = s\<rparr>"
  | (list) ds where "docs s = Some ds" "ds \<noteq> []" "cli_index cl = None"
      "todo_show ck cl ui s = \<lparr>run_outcome = Completed, run_output = list_lines ck ds, run_store = s\<rparr>"
  | (task) ds a where "docs s = Some ds" "ds \<noteq> []" "cli_index cl = Some a" "\<not> edit_opt cl"
      "todo_show ck cl ui s = \<lparr>run_outcome = Completed, run_output = showTask ck (js_to_number a) s, run_store = s\<rparr>"
  | (edit) ds a where "docs s = Some ds" "ds \<noteq> []" "cli_index cl = Some a" "edit_opt cl"
      "todo_show ck cl ui s = showEditor (js_to_number a) ui s"
proof (cases "docs s")
  case None
  then show ?thesis using unreadable by (simp add: todo_show_def store_find_def)
next
  case (Some ds)
  show ?thesis
  proof (cases "ds = []")
    case True
    with Some show ?thesis using empty by (simp add: todo_show_def store_find_Nil)
  next
    case False
    show ?thesis
    proof (cases "cli_index cl")
      case None
      with Some False show ?thesis using list by (simp add: todo_show_def store_find_Nil)
    next
      case (Some a)
      with \<open>docs s = Some ds\<close> False show ?thesis
        using task edit by (cases "edit_opt cl") (simp_all add: todo_show_def store_find_Nil)
    qed
  qed
qed

lemma showTask_found:
  "docs s = Some ds \<Longrightarrow> find (match_query [Index_is n]) ds = Some t \<Longrightarrow> item_id t \<noteq> 0 \<Longrightarrow>
   showTask ck n s = task_lines ck n t"
  by (simp add: showTask_def store_findOne_Some)

lemma showTask_missing:
  "docs s = Some ds \<Longrightarrow> \<forall>t\<in>set ds. n \<noteq> Some (index t) \<Longrightarrow> showTask ck n s = showError"
proof -
  assume ds: "docs s = Some ds" and none: "\<forall>t\<in>set ds. n \<noteq> Some (index t)"
  from none have "find (match_query [Index_is n]) ds = None" by (simp add: find_None_iff)
  with ds show ?thesis by (simp add: showTask_def store_findOne_Some)
qed

lemma item_lines_length: "length (item_lines ck t) = (if description t \<noteq> [] then 2 else 1)"
  by (simp add: item_lines_def Let_def)

text \<open>C21: functional. The list view prints the arrow, one line per task, one more line for each task with a non-empty description, and the closing blank line.\<close>

theorem list_lines_length:
  "length (list_lines ck ts) = 2 + sum_list (map (\<lambda>t. if description t \<noteq> [] then 2 else 1) ts)"
proof -
  have "length (concat (map (item_lines ck) ts)) = sum_list (map (\<lambda>t. if description t \<noteq> [] then 2 else 1) ts)"
    by (induction ts) (simp_all add: item_lines_length)
  then show ?thesis by (simp add: list_lines_def)
qed

text \<open>C22: functional. A task's list line carries the yellow "(bash resolved)" marker exactly when its description holds a script fragment and its deadline has passed (all four combinations).\<close>

theorem item_lines_marker:
  "(Accent, ''(bash resolved)'') \<in> set (hd (item_lines ck t)) \<longleftrightarrow>
   findScripts (description t) \<and> isTimeout ck t"
  by (auto simp: item_lines_def script_resolved_def Let_def)

text \<open>C23: functional. The task view prints the header, the title, the description, then the NOTES heading and one line per note when there are notes, and the closing blank line.\<close>

theorem task_lines_length:
  "length (task_lines ck n t) = 4 + (if item_notes t \<noteq> [] then Suc (length (item_notes t)) else 0)"
  by (simp add: task_lines_def Let_def)

section \<open>What a run does to the store\<close>

lemma match_Index_is_fun: "match_query [Index_is n] = (\<lambda>u. n = Some (index u))"
  by (rule ext) simp

lemma find_Index_is_None:
  "find (match_query [Index_is n]) ds = None \<longleftrightarrow> (\<forall>t\<in>set ds. n \<noteq> Some (index t))"
  by (auto simp: find_None_iff)

lemma find_unique_update:
  assumes dist: "distinct (map index ds)" and i: "i < length ds"
    and m: "match_query [Index_is n] (ds ! i)" and y: "index y = index (ds ! i)"
  shows "find (match_query [Index_is n]) (ds[i := y]) = Some y"
proof -
  have "\<not> match_query [Index_is n] (ds[i := y] ! j)" if "j < i" for j
  proof -
    from that i have "j < length ds" "j \<noteq> i" by auto
    with dist i have "index (ds ! j) \<noteq> index (ds ! i)"
      using distinct_map_nth_eq [of index ds i j] by auto
    with that m show ?thesis by simp
  qed
  with i m y show ?thesis
    unfolding find_Some_iff by (intro exI [of _ i]) auto
qed

lemma find_index_member:
  "distinct (map index ds) \<Longrightarrow> t \<in> set ds \<Longrightarrow> find (match_query [Index_is (Some (index t))]) ds = Some t"
proof -
  assume dist: "distinct (map index ds)" and t: "t \<in> set ds"
  then obtain i where i: "i < length ds" "ds ! i = t" by (auto simp: in_set_conv_nth)
  have "find (match_query [Index_is (Some (index t))]) (ds[i := t]) = Some t"
    using find_unique_update [OF dist i(1)] i(2) by simp
  moreover from i have "ds[i := t] = ds" by (metis list_update_id)
  ultimately show ?thesis by simp
qed

text \<open>The store a run leaves: the old one, or the old one with one task edited in place.\<close>

lemma todo_show_store_effect:
  assumes inv: "store_inv s"
  shows "run_store (todo_show ck cl ui s) = s \<or>
         (\<exists>ds i v. docs s = Some ds \<and> i < length ds \<and>
            ask_title (title (ds ! i)) (title_entries ui) = Some v \<and>
            find (match_query [Index_is (js_to_number (the (cli_index cl)))]) ds = Some (ds ! i) \<and>
            edit_opt cl \<and> cli_index cl \<noteq> None \<and>
            todo_show ck cl ui s =
              \<lparr>run_outcome = Completed,
               run_output = [[(Plain, '' '')]] @
                 (if editor_text ui \<noteq> [] then [[(Plain, editor_text ui)]] else []) @
                 [[(Plain, ''task updated.'' @ newline)]],
               run_store = s\<lparr>docs := Some (ds[i := (ds ! i)\<lparr>title := v,
                                  description := flatten_description (editor_text ui)\<rparr>])\<rparr>\<rparr>)"
proof (cases rule: todo_show_cases [of s ck cl ui])
  case (edit ds a)
  show ?thesis
  proof (cases "find (match_query [Index_is (js_to_number a)]) ds")
    case None
    with edit show ?thesis by (simp add: showEditor_missing find_Index_is_None)
  next
    case (Some t)
    show ?thesis
    proof (cases "ask_title (title t) (title_entries ui)")
      case None
      with edit Some show ?thesis by (simp add: showEditor_interrupted store_findOne_Some)
    next
      case (Some v)
      with showEditor_completed [OF inv edit(1) \<open>find _ ds = Some t\<close> Some] edit \<open>find _ ds = Some t\<close>
      show ?thesis by fastforce
    qed
  qed
qed simp_all


lemma todo_show_store_cases [consumes 1]:
  assumes "store_inv s"
  obtains (same) "run_store (todo_show ck cl ui s) = s"
  | (edited) ds i v where "docs s = Some ds" "i < length ds"
      "ask_title (title (ds ! i)) (title_entries ui) = Some v"
      "find (match_query [Index_is (js_to_number (the (cli_index cl)))]) ds = Some (ds ! i)"
      "edit_opt cl" "cli_index cl \<noteq> None"
      "run_store (todo_show ck cl ui s) =
         s\<lparr>docs := Some (ds[i := (ds ! i)\<lparr>title := v,
                                description := flatten_description (editor_text ui)\<rparr>])\<rparr>"
  using todo_show_store_effect [OF assms, of ck cl ui] by fastforce

lemma store_inv_edit:
  "store_inv s \<Longrightarrow> docs s = Some ds \<Longrightarrow> i < length ds \<Longrightarrow>
   store_inv (s\<lparr>docs := Some (ds[i := (ds ! i)\<lparr>title := v, description := d\<rparr>])\<rparr>)"
  by (simp add: store_inv_def docs_inv_update)


section \<open>Scenarios of the views\<close>

text \<open>C27: functional. Spec scenario "Buy milk": an unsolved task without schedule or notes is shown with a header without deadline or script marker, its title in the neutral colour after the open glyph, its description and the blank line.\<close>

theorem task_lines_plain:
  "status t = Unsolved \<Longrightarrow> cronTime t = None \<Longrightarrow> item_notes t = [] \<Longrightarrow>
   task_lines ck n t =
     [[(Accent, ''TASK ['' @ number_text n @ ''] : '')],
      [(Hue Neutral, hollow_dot @ '' '' @ title t)],
      [(Plain, ''  '' @ description t)],
      [(Plain, '' '')]]"
  by (simp add: task_lines_def date_def script_resolved_def isTimeout_def colorOfTask_def symbolOfTask_def)

text \<open>C28: functional. Spec scenario "Deploy": an unsolved task whose deadline has passed and whose description holds a script fragment is shown with its deadline and "(bash resolved)" in the header and its title in the warning colour.\<close>

theorem task_lines_overdue_script:
  "status t = Unsolved \<Longrightarrow> cronTime t = Some c \<Longrightarrow> deadline_of ck c = Some d \<Longrightarrow> d < now ck \<Longrightarrow>
   findScripts (description t) \<Longrightarrow> render_time ck d \<noteq> [] \<Longrightarrow>
   take 2 (task_lines ck n t) =
     [[(Accent, ''TASK ['' @ number_text n @ ''] (limit: '' @ render_time ck d @ '')(bash resolved): '')],
      [(Hue Warning, hollow_dot @ '' '' @ title t)]]"
  by (simp add: task_lines_def date_def script_resolved_def isTimeout_def colorOfTask_def symbolOfTask_def)

text \<open>C29: functional. A solved task is shown, in the task view and in the list, in the done colour after the filled glyph.\<close>

theorem solved_views:
  "status t = Solved \<Longrightarrow>
   task_lines ck n t ! 1 = [(Hue Done, filled_dot @ '' '' @ title t)] \<and>
   hd (hd (item_lines ck t)) =
     (Hue Done, filled_dot @ '' '' @ show_int (index t) @ '' '' @ strEllipsis (title t) 50)"
  by (simp add: task_lines_def item_lines_def colorOfTask_def symbolOfTask_def status_glyph_def Let_def)

text \<open>C30: bounds. In the list a task's title is cut to its first 50 characters followed by the ellipsis mark: the printed title is at most 50 characters plus the mark and starts with the title's first 50 characters.\<close>

theorem item_lines_title_bound:
  "\<exists>p. hd (item_lines ck t) =
        [(Hue (colorOfTask ck t), status_glyph t @ '' '' @ show_int (index t) @ '' '' @ p), (Plain, '' ''),
         if script_resolved ck t then (Accent, ''(bash resolved)'') else (Plain, [])] \<and>
       length p \<le> 50 + length ellipsis_mark \<and> take 50 p = take 50 (title t)"
proof -
  let ?p = "strEllipsis (title t) 50"
  have "int (length ?p) \<le> max 50 0 + int (length ellipsis_mark)" by (rule strEllipsis_length)
  then have "length ?p \<le> 50 + length ellipsis_mark" by simp
  moreover have "take 50 ?p = take 50 (title t)"
    using strEllipsis_prefix [of 50 "title t"] by simp
  ultimately show ?thesis by (auto simp: item_lines_def Let_def)
qed


text \<open>C31: bounds. In the list a task's non-empty description is printed on its own line after "    - ", cut to its first 80 characters followed by the ellipsis mark.\<close>

theorem item_lines_description_bound:
  "description t \<noteq> [] \<Longrightarrow>
   \<exists>q. item_lines ck t ! 1 = [(Plain, ''    - '' @ q)] \<and>
       length q \<le> 80 + length ellipsis_mark \<and> take 80 q = take 80 (description t)"
proof -
  assume d: "description t \<noteq> []"
  let ?q = "strEllipsis (description t) 80"
  have "int (length ?q) \<le> max 80 0 + int (length ellipsis_mark)" by (rule strEllipsis_length)
  then have "length ?q \<le> 80 + length ellipsis_mark" by simp
  moreover have "take 80 ?q = take 80 (description t)"
    using strEllipsis_prefix [of 80 "description t"] by simp
  ultimately show ?thesis using d by (auto simp: item_lines_def Let_def nth_append)
qed

end
