(* ===== verification/Lifecycle.thy ===== *)
theory Lifecycle
  imports Todo_Show
begin

text \<open>
  The life of the store across invocations (specification sections 3 and 5): each
  invocation is one run of todo-show, or one of the repository's other commands that
  add or delete a task, which the specification puts out of scope and which are
  modelled by the store's \<open>insert\<close> and \<open>remove\<close>. Invocations are sequential; the
  order in which they happen is the only interleaving. \<open>lifecycle_step\<close> relates the
  store before an invocation to the store after it; \<open>reachable\<close> are the stores a
  sequence of invocations can produce from an empty collection.
\<close>

inductive lifecycle_step :: "store \<Rightarrow> store \<Rightarrow> bool" where
  show_run: "lifecycle_step s (run_store (todo_show ck cl ui s))"
| add: "store_insert r s = Inr (t, s') \<Longrightarrow> lifecycle_step s s'"
| delete: "store_remove q s = Inr s' \<Longrightarrow> lifecycle_step s s'"

inductive reachable :: "store \<Rightarrow> bool" where
  init: "reachable empty_store"
| step: "reachable s \<Longrightarrow> lifecycle_step s s' \<Longrightarrow> reachable s'"

text \<open>A session: the invocations of one user, in order, run deterministically.\<close>

datatype invocation = Show clock cli_args user_input | Add todo_item | Delete query

fun invoke :: "store \<Rightarrow> invocation \<Rightarrow> store" where
  "invoke s (Show ck cl ui) = run_store (todo_show ck cl ui s)"
| "invoke s (Add r) = (case store_insert r s of Inl _ \<Rightarrow> s | Inr (_, s') \<Rightarrow> s')"
| "invoke s (Delete q) = (case store_remove q s of Inl _ \<Rightarrow> s | Inr s' \<Rightarrow> s')"

definition session :: "store \<Rightarrow> invocation list \<Rightarrow> store" where
  "session s xs = fold (\<lambda>x s. invoke s x) xs s"

lemma invoke_step: "invoke s x = s \<or> lifecycle_step s (invoke s x)"
  by (cases x) (auto intro: lifecycle_step.intros split: sum.splits)

lemma reachable_invoke: "reachable s \<Longrightarrow> reachable (invoke s x)"
  using invoke_step [of s x] by (auto intro: reachable.step)

lemma reachable_session: "reachable s \<Longrightarrow> reachable (session s xs)"
  by (induction xs arbitrary: s) (simp_all add: session_def reachable_invoke)

section \<open>Invariant of reachable stores\<close>

definition lifecycle_inv :: "store \<Rightarrow> bool" where
  "lifecycle_inv s \<longleftrightarrow> store_inv s \<and> docs s \<noteq> None"

lemma lifecycle_inv_init: "lifecycle_inv empty_store"
  by (simp add: lifecycle_inv_def store_inv_def docs_inv_def empty_store_def)

lemma docs_run_store:
  "store_inv s \<Longrightarrow> docs s \<noteq> None \<Longrightarrow> docs (run_store (todo_show ck cl ui s)) \<noteq> None"
  by (cases rule: todo_show_store_cases [of s ck cl ui]) auto

lemma lifecycle_step_inv: "lifecycle_step s s' \<Longrightarrow> lifecycle_inv s \<Longrightarrow> lifecycle_inv s'"
proof (induction rule: lifecycle_step.induct)
  case (show_run s ck cl ui)
  then have inv: "store_inv s" and d: "docs s \<noteq> None" by (simp_all add: lifecycle_inv_def)
  from inv show ?case
  proof (cases rule: todo_show_store_cases [of s ck cl ui])
    case same
    with inv d show ?thesis by (simp add: lifecycle_inv_def)
  next
    case (edited ds i v)
    with inv show ?thesis by (simp add: lifecycle_inv_def store_inv_edit)
  qed
next
  case (add r s t s')
  then have "store_inv s'" by (meson lifecycle_inv_def store_insert_inv)
  moreover from add.hyps have "docs s' \<noteq> None" by (auto simp: store_insert_Inr)
  ultimately show ?case by (simp add: lifecycle_inv_def)
next
  case (delete q s s')
  then have "store_inv s'" by (meson lifecycle_inv_def store_remove_inv)
  moreover from delete.hyps have "docs s' \<noteq> None" by (auto simp: store_remove_Inr)
  ultimately show ?case by (simp add: lifecycle_inv_def)
qed

lemma reachable_lifecycle_inv: "reachable s \<Longrightarrow> lifecycle_inv s"
proof (induction rule: reachable.induct)
  case init
  show ?case by (rule lifecycle_inv_init)
next
  case (step s s')
  then show ?case using lifecycle_step_inv by blast
qed

lemma reachable_docs:
  "reachable s \<Longrightarrow> \<exists>ds. docs s = Some ds \<and> docs_inv (next_id s) (next_index s) ds"
  by (drule reachable_lifecycle_inv) (auto simp: lifecycle_inv_def store_inv_def)

text \<open>C8: invariant. In every store a sequence of invocations can produce from an empty
  collection, the collection is readable and identifiers and indices are unique, and no
  identifier is the falsy 0 that showTask's guard tests for.\<close>

theorem reachable_unique_keys:
  assumes "reachable s"
  shows "\<exists>ds. docs s = Some ds \<and> distinct (map item_id ds) \<and> distinct (map index ds) \<and>
           (\<forall>t\<in>set ds. item_id t \<noteq> 0)"
proof -
  from reachable_docs [OF assms] obtain ds where
    "docs s = Some ds" "docs_inv (next_id s) (next_index s) ds" by blast
  then show ?thesis by (auto simp: docs_inv_def list_all_iff)
qed


text \<open>C26: round trip. A task the add command inserts into a reachable store is stored with
  the identifier and index the store assigns and every other field as given; giving
  todo-show the decimal text of that index shows exactly that task.\<close>

theorem added_task_shown:
  assumes reach: "reachable s" and ins: "store_insert r s = Inr (t, s')"
    and b: "\<bar>next_index s\<bar> \<le> 2 ^ 53"
  shows "t = r\<lparr>item_id := next_id s, index := next_index s\<rparr> \<and>
         todo_show ck \<lparr>edit_opt = False, args = [show_int (next_index s)]\<rparr> ui s' =
           \<lparr>run_outcome = Completed, run_output = task_lines ck (Some (next_index s)) t, run_store = s'\<rparr>"
proof -
  obtain ds where ds: "docs s = Some ds" and inv: "docs_inv (next_id s) (next_index s) ds"
    using reachable_docs [OF reach] by blast
  have pos: "0 < next_id s"
    using reachable_lifecycle_inv [OF reach] by (simp add: lifecycle_inv_def store_inv_def)
  from ins ds have t: "t = r\<lparr>item_id := next_id s, index := next_index s\<rparr>"
    and s': "s' = s\<lparr>docs := Some (ds @ [t]), next_id := Suc (next_id s), next_index := next_index s + 1\<rparr>"
    by (auto simp: store_insert_Inr)
  have "\<forall>u\<in>set ds. \<not> match_query [Index_is (Some (next_index s))] u"
    using inv by (auto simp: docs_inv_def list_all_iff)
  then have f: "find (match_query [Index_is (Some (next_index s))]) (ds @ [t]) = Some t"
    using t by (simp add: find_append_none)
  have "item_id t \<noteq> 0" using t pos by simp
  with f s' have sh: "showTask ck (Some (next_index s)) s' = task_lines ck (Some (next_index s)) t"
    by (intro showTask_found [of s' "ds @ [t]"]) simp_all
  have "js_to_number (show_int (next_index s)) = Some (next_index s)"
    by (rule js_to_number_show_int [OF b])
  with sh s' t show ?thesis
    by (simp add: todo_show_def store_find_def cli_index_def)
qed

section \<open>Indices are never reused\<close>

definition provenance :: "todo_item list \<Rightarrow> int \<Rightarrow> todo_item list \<Rightarrow> bool" where
  "provenance ds bound ds' \<longleftrightarrow>
     (\<forall>u\<in>set ds'. index u < bound \<longrightarrow> (\<exists>t\<in>set ds. item_id t = item_id u \<and> index t = index u))"

lemma provenance_refl: "provenance ds b ds"
  by (auto simp: provenance_def)

lemma provenance_trans:
  "provenance ds b ds1 \<Longrightarrow> provenance ds1 b1 ds2 \<Longrightarrow> b \<le> b1 \<Longrightarrow> provenance ds b ds2"
  unfolding provenance_def by (metis order_less_le_trans)

lemma provenance_subset: "set ds' \<subseteq> set ds \<Longrightarrow> provenance ds b ds'"
  by (auto simp: provenance_def)

lemma lifecycle_step_provenance:
  assumes step: "lifecycle_step s s'" and inv: "lifecycle_inv s" and ds: "docs s = Some ds"
  shows "next_index s \<le> next_index s' \<and> (\<exists>ds'. docs s' = Some ds' \<and> provenance ds (next_index s) ds')"
  using step
proof cases
  case (show_run ck cl ui)
  from inv have sinv: "store_inv s" by (simp add: lifecycle_inv_def)
  from sinv show ?thesis
  proof (cases rule: todo_show_store_cases [of s ck cl ui])
    case same
    with show_run ds show ?thesis by (simp add: provenance_refl)
  next
    case (edited ds0 i v)
    let ?u = "(ds ! i)\<lparr>title := v, description := flatten_description (editor_text ui)\<rparr>"
    from edited ds have i: "i < length ds" and st: "s' = s\<lparr>docs := Some (ds[i := ?u])\<rparr>"
      using show_run by simp_all
    have "provenance ds (next_index s) (ds[i := ?u])"
      unfolding provenance_def
    proof
      fix u
      assume "u \<in> set (ds[i := ?u])"
      then have "u = ?u \<or> u \<in> set ds" using set_update_subset_insert by fastforce
      with i show "index u < next_index s \<longrightarrow> (\<exists>t\<in>set ds. item_id t = item_id u \<and> index t = index u)"
        by (auto intro: bexI [of _ "ds ! i"])
    qed
    with st show ?thesis by simp
  qed
next
  case (add r t)
  then have s': "s' = s\<lparr>docs := Some (ds @ [t]), next_id := Suc (next_id s), next_index := next_index s + 1\<rparr>"
    and t: "index t = next_index s"
    using ds by (auto simp: store_insert_Inr)
  have "provenance ds (next_index s) (ds @ [t])"
    using t by (auto simp: provenance_def)
  with s' show ?thesis by simp
next
  case (delete q)
  then obtain i where "s' = s\<lparr>docs := Some (take i ds @ drop (Suc i) ds)\<rparr>"
    using ds by (auto simp: store_remove_Inr)
  moreover have "set (take i ds @ drop (Suc i) ds) \<subseteq> set ds"
    by (auto dest: in_set_takeD in_set_dropD)
  ultimately show ?thesis by (simp add: provenance_subset)
qed

lemma lifecycle_star_inv: "lifecycle_step\<^sup>*\<^sup>* s s' \<Longrightarrow> lifecycle_inv s \<Longrightarrow> lifecycle_inv s'"
  by (induction rule: rtranclp_induct) (auto intro: lifecycle_step_inv)

lemma lifecycle_star_provenance:
  assumes star: "lifecycle_step\<^sup>*\<^sup>* s s''" and inv: "lifecycle_inv s" and ds: "docs s = Some ds"
  shows "next_index s \<le> next_index s'' \<and> (\<exists>ds''. docs s'' = Some ds'' \<and> provenance ds (next_index s) ds'')"
  using star
proof (induction rule: rtranclp_induct)
  case base
  with ds show ?case by (simp add: provenance_refl)
next
  case (step s1 s2)
  from step.IH obtain ds1 where le1: "next_index s \<le> next_index s1" and ds1: "docs s1 = Some ds1"
    and p1: "provenance ds (next_index s) ds1" by blast
  have inv1: "lifecycle_inv s1" using lifecycle_star_inv [OF step.hyps(1) inv] .
  from lifecycle_step_provenance [OF step.hyps(2) inv1 ds1] obtain ds2 where
    le2: "next_index s1 \<le> next_index s2" and ds2: "docs s2 = Some ds2"
    and p2: "provenance ds1 (next_index s1) ds2" by blast
  from p1 p2 le1 have "provenance ds (next_index s) ds2" by (rule provenance_trans)
  with le1 le2 ds2 show ?case by auto
qed

text \<open>C9: safety. Indices are never reused: a record that, after any further invocations,
  carries an index some record of a reachable store carried has that record's
  identifier.\<close>

theorem index_keeps_identity:
  assumes r: "reachable s" and star: "lifecycle_step\<^sup>*\<^sup>* s s''"
    and ds: "docs s = Some ds" and ds'': "docs s'' = Some ds''"
    and t: "t \<in> set ds" and u: "u \<in> set ds''" and same: "index u = index t"
  shows "item_id u = item_id t"
proof -
  from reachable_lifecycle_inv [OF r] have inv: "lifecycle_inv s" .
  then have "store_inv s" by (simp add: lifecycle_inv_def)
  with ds have dist: "distinct (map index ds)" and bound: "index t < next_index s"
    using t by (auto simp: store_inv_def docs_inv_def list_all_iff)
  from lifecycle_star_provenance [OF star inv ds] ds'' have "provenance ds (next_index s) ds''"
    by auto
  with u same bound obtain t' where t': "t' \<in> set ds" "item_id t' = item_id u" "index t' = index u"
    by (auto simp: provenance_def)
  from dist t t'(1) t'(3) same have "t' = t"
    by (auto simp: distinct_map dest: inj_onD)
  with t'(2) show ?thesis by simp
qed

end
