(* ===== verification/Collection_File.thy ===== *)
theory Collection_File
  imports Store Js_Runtime "HOL-Library.Monad_Syntax"
begin

text \<open>
  The collection file behind the store (specification sections 4.2 and 6; the store
  module is outside \<open>src/\<close>). The file is one line per record, after a header line
  holding the two counters; every line ends with a newline. A line is a sequence of
  fields, each ended by a tab. Text fields are escaped, so that a newline or a tab in a
  title, a description or a note cannot end a field or a record early: a backslash is
  written \<open>\\\<close>, a newline \<open>\n\<close> and a tab \<open>\t\<close>. Numbers are written in decimal,
  the status as \<open>unsolved\<close> or \<open>solved\<close>, an absent schedule as \<open>-\<close> and a present one as
  \<open>+\<close> followed by its escaped text; the notes are the fields after the schedule.

  Opening the store (\<open>new Store(DEFAULT_DATABASE)\<close>) reads the file: an empty file is an
  empty collection, a file that cannot be read or decoded is the unreadable snapshot on
  which every operation fails with \<open>PersistenceError\<close>.
\<close>

section \<open>Escaping text fields\<close>

abbreviation backslash :: char where "backslash \<equiv> CHR 0x5C"
abbreviation tab :: char where "tab \<equiv> CHR 0x09"
abbreviation lf :: char where "lf \<equiv> CHR 0x0A"

definition escape :: "string \<Rightarrow> string" where
  "escape s =
     concat (map (\<lambda>c. if c = backslash then [backslash, backslash]
                      else if c = lf then [backslash, CHR ''n'']
                      else if c = tab then [backslash, CHR ''t''] else [c]) s)"

fun unescape :: "string \<Rightarrow> string option" where
  "unescape [] = Some []"
| "unescape [c] = (if c = backslash then None else Some [c])"
| "unescape (c # d # cs) =
     (if c = backslash
      then (if d = backslash then map_option (Cons backslash) (unescape cs)
            else if d = CHR ''n'' then map_option (Cons lf) (unescape cs)
            else if d = CHR ''t'' then map_option (Cons tab) (unescape cs) else None)
      else map_option (Cons c) (unescape (d # cs)))"

section \<open>Fields and lines\<close>

text \<open>Items each ended by a separator, and the split of a text at every separator.\<close>

definition terminate :: "char \<Rightarrow> string list \<Rightarrow> string" where
  "terminate c ws = concat (map (\<lambda>w. w @ [c]) ws)"

fun split_on :: "char \<Rightarrow> string \<Rightarrow> string list" where
  "split_on c [] = [[]]"
| "split_on c (x # xs) =
     (if x = c then [] # split_on c xs
      else (case split_on c xs of [] \<Rightarrow> [[x]] | w # ws \<Rightarrow> (x # w) # ws))"

definition unterminate :: "char \<Rightarrow> string \<Rightarrow> string list option" where
  "unterminate c s = (let ws = split_on c s in if last ws = [] then Some (butlast ws) else None)"

definition parse_int :: "string \<Rightarrow> int option" where
  "parse_int w =
     (case w of
       [] \<Rightarrow> None
     | c # cs \<Rightarrow> if c = CHR ''-'' then map_option (\<lambda>n. - int n) (radix_value 10 cs)
                 else map_option int (radix_value 10 w))"

primrec status_text :: "todo_status \<Rightarrow> string" where
  "status_text Unsolved = ''unsolved''"
| "status_text Solved = ''solved''"

definition parse_status :: "string \<Rightarrow> todo_status option" where
  "parse_status w =
     (if w = ''unsolved'' then Some Unsolved else if w = ''solved'' then Some Solved else None)"

definition cron_text :: "string option \<Rightarrow> string" where
  "cron_text c = (case c of None \<Rightarrow> ''-'' | Some e \<Rightarrow> CHR ''+'' # escape e)"

definition parse_cron :: "string \<Rightarrow> string option option" where
  "parse_cron w =
     (case w of
       [] \<Rightarrow> None
     | c # cs \<Rightarrow> if c = CHR ''-'' \<and> cs = [] then Some None
                 else if c = CHR ''+'' then map_option Some (unescape cs) else None)"

section \<open>Records, header and file\<close>

definition encode_item :: "todo_item \<Rightarrow> string" where
  "encode_item t =
     terminate tab
       ([show_nat (item_id t), show_int (index t), escape (title t), escape (description t),
         status_text (status t), cron_text (cronTime t)] @ map escape (item_notes t))"

definition decode_item :: "string \<Rightarrow> todo_item option" where
  "decode_item l =
     (case unterminate tab l of
       Some (i # x # ti # de # st # cr # ns) \<Rightarrow>
         do {
           k \<leftarrow> radix_value 10 i;
           n \<leftarrow> parse_int x;
           t \<leftarrow> unescape ti;
           d \<leftarrow> unescape de;
           u \<leftarrow> parse_status st;
           c \<leftarrow> parse_cron cr;
           notes \<leftarrow> those (map unescape ns);
           Some \<lparr>item_id = k, index = n, title = t, description = d, status = u,
                 cronTime = c, item_notes = notes\<rparr>
         }
     | _ \<Rightarrow> None)"

definition encode_header :: "nat \<Rightarrow> int \<Rightarrow> string" where
  "encode_header k n = terminate tab [show_nat k, show_int n]"

definition decode_header :: "string \<Rightarrow> (nat \<times> int) option" where
  "decode_header l =
     (case unterminate tab l of
       Some [a, b] \<Rightarrow> do { k \<leftarrow> radix_value 10 a; n \<leftarrow> parse_int b; Some (k, n) }
     | _ \<Rightarrow> None)"

definition encode_file :: "nat \<Rightarrow> int \<Rightarrow> todo_item list \<Rightarrow> string" where
  "encode_file k n ds = terminate lf (encode_header k n # map encode_item ds)"

definition decode_file :: "string \<Rightarrow> store option" where
  "decode_file f =
     (if f = [] then Some empty_store
      else (case unterminate lf f of
              Some (h # ls) \<Rightarrow>
                do {
                  (k, n) \<leftarrow> decode_header h;
                  ds \<leftarrow> those (map decode_item ls);
                  Some \<lparr>docs = Some ds, next_id = k, next_index = n\<rparr>
                }
            | _ \<Rightarrow> None))"

text \<open>The file a store commits (none for the unreadable snapshot) and the store an
  invocation opens from the file's content (\<open>None\<close>: the file cannot be read).\<close>

definition store_file :: "store \<Rightarrow> string option" where
  "store_file s = map_option (encode_file (next_id s) (next_index s)) (docs s)"

definition store_open :: "string option \<Rightarrow> store" where
  "store_open f =
     (case Option.bind f decode_file of
       Some s \<Rightarrow> s
     | None \<Rightarrow> \<lparr>docs = None, next_id = 1, next_index = 1\<rparr>)"

section \<open>Round trip\<close>

lemma special_chars_distinct [simp]:
  "backslash \<noteq> lf" "backslash \<noteq> tab" "lf \<noteq> tab" "lf \<noteq> backslash" "tab \<noteq> backslash" "tab \<noteq> lf"
  "CHR ''n'' \<noteq> backslash" "CHR ''t'' \<noteq> backslash" "CHR ''n'' \<noteq> tab" "CHR ''t'' \<noteq> tab"
  "CHR ''n'' \<noteq> lf" "CHR ''t'' \<noteq> lf" "lf \<noteq> CHR ''n''" "lf \<noteq> CHR ''t''"
  "tab \<noteq> CHR ''n''" "tab \<noteq> CHR ''t''" "backslash \<noteq> CHR ''n''" "backslash \<noteq> CHR ''t''"
  by simp_all

lemma unescape_plain: "c \<noteq> backslash \<Longrightarrow> unescape (c # xs) = map_option (Cons c) (unescape xs)"
  by (cases xs) simp_all

lemma unescape_escape: "unescape (escape s) = Some s"
proof (induction s)
  case Nil
  show ?case by (simp add: escape_def)
next
  case (Cons c s)
  have e: "escape (c # s) =
             (if c = backslash then [backslash, backslash] else if c = lf then [backslash, CHR ''n'']
              else if c = tab then [backslash, CHR ''t''] else [c]) @ escape s"
    by (simp add: escape_def)
  show ?case
    using Cons.IH unfolding e
    by (auto simp: unescape_plain)
qed

lemma escape_no_separator: "lf \<notin> set (escape s)" "tab \<notin> set (escape s)"
  by (auto simp: escape_def)

lemma split_on_append: "c \<notin> set w \<Longrightarrow> split_on c (w @ c # r) = w # split_on c r"
  by (induction w) auto

lemma split_on_terminate:
  "\<forall>w\<in>set ws. c \<notin> set w \<Longrightarrow> split_on c (terminate c ws) = ws @ [[]]"
  by (induction ws) (simp_all add: terminate_def split_on_append)

lemma unterminate_terminate:
  "\<forall>w\<in>set ws. c \<notin> set w \<Longrightarrow> unterminate c (terminate c ws) = Some ws"
  by (simp add: unterminate_def split_on_terminate)

lemma terminate_notin: "d \<noteq> c \<Longrightarrow> \<forall>w\<in>set ws. d \<notin> set w \<Longrightarrow> d \<notin> set (terminate c ws)"
  by (auto simp: terminate_def)

lemma parse_int_show_int: "parse_int (show_int i) = Some i"
proof (cases "i < 0")
  case True
  then show ?thesis by (simp add: show_int_def parse_int_def radix_value_show_nat)
next
  case False
  obtain c cs where cs: "show_nat (nat i) = c # cs"
    by (cases "show_nat (nat i)") auto
  with show_nat_digits [of "nat i"] have "c \<noteq> CHR ''-''"
    by (auto dest: digit_not_special)
  with False cs radix_value_show_nat [of "nat i"] show ?thesis
    by (simp add: show_int_def parse_int_def)
qed

lemma show_nat_no_separator: "lf \<notin> set (show_nat n)" "tab \<notin> set (show_nat n)"
  using show_nat_no_ws [of n] by (auto simp: js_ws_def)

lemma show_int_no_separator: "lf \<notin> set (show_int i)" "tab \<notin> set (show_int i)"
  using show_int_chars [of i] by (auto simp: js_ws_def)

lemma parse_status_text: "parse_status (status_text u) = Some u"
  by (cases u) (simp_all add: parse_status_def)

lemma status_text_no_separator: "lf \<notin> set (status_text u) \<and> tab \<notin> set (status_text u)"
  by (cases u) simp_all

lemma parse_cron_text: "parse_cron (cron_text c) = Some c"
  by (cases c) (simp_all add: cron_text_def parse_cron_def unescape_escape)

lemma cron_text_no_separator: "lf \<notin> set (cron_text c) \<and> tab \<notin> set (cron_text c)"
  by (cases c) (simp_all add: cron_text_def escape_no_separator)

lemma those_map_inverse: "(\<And>x. x \<in> set xs \<Longrightarrow> f (g x) = Some x) \<Longrightarrow> those (map f (map g xs)) = Some xs"
  by (induction xs) auto

lemma decode_encode_item: "decode_item (encode_item t) = Some t"
proof -
  let ?ws = "[show_nat (item_id t), show_int (index t), escape (title t), escape (description t),
              status_text (status t), cron_text (cronTime t)] @ map escape (item_notes t)"
  have "\<forall>w\<in>set ?ws. tab \<notin> set w"
    by (auto simp: show_nat_no_separator show_int_no_separator escape_no_separator
                   status_text_no_separator cron_text_no_separator)
  then have "unterminate tab (encode_item t) = Some ?ws"
    by (simp add: encode_item_def unterminate_terminate)
  moreover have "those (map unescape (map escape (item_notes t))) = Some (item_notes t)"
    by (rule those_map_inverse) (rule unescape_escape)
  ultimately show ?thesis
    by (simp add: decode_item_def radix_value_show_nat parse_int_show_int unescape_escape
                  parse_status_text parse_cron_text)
qed

lemma encode_item_no_lf: "lf \<notin> set (encode_item t)"
  unfolding encode_item_def
  by (rule terminate_notin)
     (auto simp: show_nat_no_separator show_int_no_separator escape_no_separator
                 status_text_no_separator cron_text_no_separator)

lemma encode_header_no_lf: "lf \<notin> set (encode_header k n)"
  unfolding encode_header_def
  by (rule terminate_notin) (auto simp: show_nat_no_separator show_int_no_separator)

lemma decode_encode_header: "decode_header (encode_header k n) = Some (k, n)"
proof -
  have "unterminate tab (encode_header k n) = Some [show_nat k, show_int n]"
    by (simp add: encode_header_def unterminate_terminate show_nat_no_separator show_int_no_separator)
  then show ?thesis by (simp add: decode_header_def radix_value_show_nat parse_int_show_int)
qed

lemma decode_encode_file:
  "decode_file (encode_file k n ds) = Some \<lparr>docs = Some ds, next_id = k, next_index = n\<rparr>"
proof -
  have "\<forall>w\<in>set (encode_header k n # map encode_item ds). lf \<notin> set w"
    by (auto simp: encode_item_no_lf encode_header_no_lf)
  then have "unterminate lf (encode_file k n ds) = Some (encode_header k n # map encode_item ds)"
    by (simp add: encode_file_def unterminate_terminate)
  moreover have "encode_file k n ds \<noteq> []"
    by (simp add: encode_file_def terminate_def)
  moreover have "those (map decode_item (map encode_item ds)) = Some ds"
    by (rule those_map_inverse) (rule decode_encode_item)
  ultimately show ?thesis by (simp add: decode_file_def decode_encode_header)
qed

lemma store_open_store_file: "docs s \<noteq> None \<Longrightarrow> store_open (store_file s) = s"
  by (auto simp: store_open_def store_file_def decode_encode_file)

end
