(* ===== verification/Persistence.thy ===== *)
theory Persistence
  imports Lifecycle Collection_File
begin

text \<open>
  One invocation of todo-show as a process (src/src/bin/todo-show.ts): the module opens
  the store on the collection file (line 8, \<open>new Store(DEFAULT_DATABASE)\<close>), runs the
  main function (lines 72-93), and a successful \<open>store.update\<close> (line 44) writes the
  collection back to the file. The update is reached exactly on the edit branch (line 78:
  \<open>-e\<close> and an argument, over a readable, non-empty collection), and that branch
  completes exactly when the update succeeded; so the process writes the file exactly
  when such a run completes, whether or not the record changed. The file is the only
  state that outlives the process.
\<close>

definition todo_show_process ::
  "clock \<Rightarrow> cli_args \<Rightarrow> user_input \<Rightarrow> string option \<Rightarrow> run \<times> string option" where
  "todo_show_process ck cl ui f =
     (let s = store_open f; r = todo_show ck cl ui s
      in (r, if edit_opt cl \<and> cli_index cl \<noteq> None \<and> docs s \<noteq> None \<and> docs s \<noteq> Some [] \<and>
                run_outcome r = Completed
             then store_file (run_store r) else f))"


lemma todo_show_changed:
  assumes "run_store (todo_show ck cl ui s) \<noteq> s"
  shows "edit_opt cl \<and> cli_index cl \<noteq> None \<and> run_outcome (todo_show ck cl ui s) = Completed \<and>
         docs s \<noteq> None \<and> docs s \<noteq> Some []"
  using assms
  by (auto simp: todo_show_def showEditor_def Let_def store_update_def
           simp del: first_pos_None_iff split: sum.splits option.splits if_splits)

lemma todo_show_process_cases:
  "(snd (todo_show_process ck cl ui f) = f \<and>
    run_store (fst (todo_show_process ck cl ui f)) = store_open f) \<or>
   (snd (todo_show_process ck cl ui f) = store_file (run_store (fst (todo_show_process ck cl ui f))) \<and>
    docs (run_store (fst (todo_show_process ck cl ui f))) \<noteq> None)"
proof (cases "edit_opt cl \<and> cli_index cl \<noteq> None \<and> docs (store_open f) \<noteq> None \<and>
              docs (store_open f) \<noteq> Some [] \<and> run_outcome (todo_show ck cl ui (store_open f)) = Completed")
  case True
  then have "docs (run_store (todo_show ck cl ui (store_open f))) \<noteq> None"
    by (auto simp: todo_show_def showEditor_def Let_def store_update_def store_find_def
             split: sum.splits option.splits)
  with True show ?thesis by (simp add: todo_show_process_def Let_def)
next
  case False
  then have "run_store (todo_show ck cl ui (store_open f)) = store_open f"
    using todo_show_changed [of ck cl ui "store_open f"] by blast
  with False show ?thesis by (simp add: todo_show_process_def Let_def)
qed





text \<open>C32: functional. An edit committed by one process is what the next process shows:
  after \<open>todo-show -e N\<close> completes on the file, \<open>todo-show N\<close> run on the file it
  left completes and prints the task with the answered title and the flattened
  description, its identifier and index unchanged (specification, section 8, the
  "Deploy v2" scenario, across two invocations).\<close>

theorem edit_then_show:
  assumes inv: "store_inv (store_open f)" and ds: "docs (store_open f) = Some ds"
    and a: "cli_index cl = Some a" and e: "edit_opt cl"
    and t: "find (match_query [Index_is (js_to_number a)]) ds = Some t"
    and v: "ask_title (title t) (title_entries ui) = Some v"
  shows "run_outcome (fst (todo_show_process ck (cl\<lparr>edit_opt := False\<rparr>) ui' (snd (todo_show_process ck cl ui f)))) = Completed \<and>
         run_output (fst (todo_show_process ck (cl\<lparr>edit_opt := False\<rparr>) ui' (snd (todo_show_process ck cl ui f)))) =
           task_lines ck (js_to_number a) (t\<lparr>title := v, description := flatten_description (editor_text ui)\<rparr>)"
proof -
  let ?s = "store_open f"
  let ?t' = "t\<lparr>title := v, description := flatten_description (editor_text ui)\<rparr>"
  have ne: "ds \<noteq> []" using t by auto
  obtain i where i: "i < length ds" "ds ! i = t" and
    run: "showEditor (js_to_number a) ui ?s =
            \<lparr>run_outcome = Completed,
             run_output = [[(Plain, '' '')]] @
               (if editor_text ui \<noteq> [] then [[(Plain, editor_text ui)]] else []) @
               [[(Plain, ''task updated.'' @ newline)]],
             run_store = ?s\<lparr>docs := Some (ds[i := ?t'])\<rparr>\<rparr>"
    using showEditor_completed [OF inv ds t v] by blast
  have r1: "todo_show ck cl ui ?s = showEditor (js_to_number a) ui ?s"
    using ds ne a e by (simp add: todo_show_def store_find_Nil)
  let ?s1 = "?s\<lparr>docs := Some (ds[i := ?t'])\<rparr>"
  have open1: "store_open (snd (todo_show_process ck cl ui f)) = ?s1"
  proof -
    have "docs ?s1 \<noteq> None" by simp
    moreover have "run_store (fst (todo_show_process ck cl ui f)) = ?s1"
      by (simp add: todo_show_process_def Let_def r1 run)
    ultimately show ?thesis
      using todo_show_process_cases [of ck cl ui f] by (auto simp: store_open_store_file)
  qed
  have dist: "distinct (map index ds)" and pos: "item_id t \<noteq> 0"
    using inv ds t by (auto simp: store_inv_def docs_inv_def list_all_iff find_Some_iff)
  have m: "match_query [Index_is (js_to_number a)] (ds ! i)"
    using t i by (auto simp: find_Some_iff)
  have f1: "find (match_query [Index_is (js_to_number a)]) (ds[i := ?t']) = Some ?t'"
    using find_unique_update [OF dist i(1) m] i by simp
  have sh: "showTask ck (js_to_number a) ?s1 = task_lines ck (js_to_number a) ?t'"
    using f1 pos by (intro showTask_found [of ?s1 "ds[i := ?t']"]) simp_all
  have "ds[i := ?t'] \<noteq> []" using ne by simp
  then show ?thesis
    using open1 sh a by (simp add: todo_show_process_def Let_def todo_show_def store_find_Nil cli_index_def)
qed

end
