(* ===== verification/Prompt_Loop.thy ===== *)
theory Prompt_Loop
  imports Todo_Show
begin

text \<open>
  The title question of \<open>makeTaskQuestions\<close> (src/src/bin/todo-show.ts, lines 19-25) as
  \<open>inquirer\<close> runs it: it reads an entry, takes the default for an empty one, and asks
  again, without bound, while \<open>validate\<close> rejects the answer. The user's entries are an
  unbounded sequence \<open>es\<close>, read from position \<open>i\<close>; the loop is a partial function whose
  \<open>None\<close> is a prompt that never returns.
\<close>

partial_function (option) ask_loop :: "string \<Rightarrow> (nat \<Rightarrow> string) \<Rightarrow> nat \<Rightarrow> string option" where
  "ask_loop d es i =
     (let v = (if es i = [] then d else es i)
      in if validate_title v then Some v else ask_loop d es (Suc i))"

lemma ask_loop_valid: "d \<noteq> [] \<or> es i \<noteq> [] \<Longrightarrow> ask_loop d es i = Some (if es i = [] then d else es i)"
  by (subst ask_loop.simps) (auto simp: validate_title_def)

lemma ask_loop_skip: "d = [] \<Longrightarrow> es i = [] \<Longrightarrow> ask_loop d es i = ask_loop d es (Suc i)"
  by (subst ask_loop.simps) (simp add: validate_title_def)

lemma ask_loop_reaches:
  "es j \<noteq> [] \<Longrightarrow> i \<le> j \<Longrightarrow> \<exists>v. ask_loop d es i = Some v"
proof (induction "j - i" arbitrary: i)
  case 0
  then show ?case using ask_loop_valid [of d es i] by auto
next
  case (Suc k)
  show ?case
  proof (cases "d \<noteq> [] \<or> es i \<noteq> []")
    case True
    then show ?thesis using ask_loop_valid by blast
  next
    case False
    with Suc.hyps Suc.prems have "\<exists>v. ask_loop d es (Suc i) = Some v"
      by (intro Suc.hyps(1)) auto
    with False show ?thesis by (simp add: ask_loop_skip)
  qed
qed

lemma map_upt_Suc: "map es [i..<i + Suc n] = es i # map es [Suc i..<Suc i + n]"
  by (simp add: upt_conv_Cons del: upt_Suc)


lemma ask_loop_prefix:
  assumes "ask_loop d es i = Some v"
  shows "\<exists>n. ask_title d (map es [i..<i + n]) = Some v"
proof (rule ask_loop.raw_induct [OF _ assms])
  fix f d es i v
  assume IH: "\<And>d es i v. f d es i = Some v \<Longrightarrow> \<exists>n. ask_title d (map es [i..<i + n]) = Some v"
    and step: "(let v = if es i = [] then d else es i
                in if validate_title v then Some v else f d es (Suc i)) = Some v"
  show "\<exists>n. ask_title d (map es [i..<i + n]) = Some v"
  proof (cases "validate_title (if es i = [] then d else es i)")
    case True
    with step have "ask_title d (map es [i..<i + Suc 0]) = Some v"
      by (simp add: Let_def)
    then show ?thesis by blast
  next
    case False
    with step have "f d es (Suc i) = Some v" by (simp add: Let_def)
    then obtain n where "ask_title d (map es [Suc i..<Suc i + n]) = Some v" using IH by blast
    with False have "ask_title d (map es [i..<i + Suc n]) = Some v"
      by (simp only: map_upt_Suc ask_title.simps Let_def if_False)
    then show ?thesis by blast
  qed
qed


lemma ask_title_Some_entry: "ask_title d xs = Some v \<Longrightarrow> d \<noteq> [] \<or> (\<exists>e\<in>set xs. e \<noteq> [])"
  by (induction xs) (auto simp: Let_def validate_title_def split: if_splits)

text \<open>C12: termination. The title prompt returns exactly when the task has a title to
  fall back on or the user eventually types a non-empty entry; otherwise it asks for
  ever.\<close>

theorem ask_loop_terminates:
  "(\<exists>v. ask_loop d es i = Some v) \<longleftrightarrow> d \<noteq> [] \<or> (\<exists>j\<ge>i. es j \<noteq> [])"
proof
  assume "\<exists>v. ask_loop d es i = Some v"
  then obtain v n where "ask_title d (map es [i..<i + n]) = Some v"
    using ask_loop_prefix by blast
  then have "d \<noteq> [] \<or> (\<exists>e\<in>set (map es [i..<i + n]). e \<noteq> [])"
    by (rule ask_title_Some_entry)
  then show "d \<noteq> [] \<or> (\<exists>j\<ge>i. es j \<noteq> [])"
    by auto
next
  assume "d \<noteq> [] \<or> (\<exists>j\<ge>i. es j \<noteq> [])"
  then show "\<exists>v. ask_loop d es i = Some v"
    using ask_loop_valid [of d es i] ask_loop_reaches [of es _ i d] by blast
qed

end
