(* ===== verification/Edit_Order.thy ===== *)
theory Edit_Order
  imports Lifecycle
begin

text \<open>
  The order of invocations. The store a run of todo-show leaves is a function of the
  parsed command line, the user's answers and the store (\<open>edit_effect\<close>): the task
  the edit selects (\<open>edit_target\<close>, a position in the collection) gets the answered
  title and the flattened description, and nothing else changes. As an edit changes no
  index, it does not change which task another edit selects, so two edits of different
  tasks commute: the user may run them in either order.
\<close>

definition edit_target :: "cli_args \<Rightarrow> todo_item list \<Rightarrow> nat option" where
  "edit_target cl ds =
     (if edit_opt cl
      then Option.bind (cli_index cl) (\<lambda>a. first_pos (match_query [Index_is (js_to_number a)]) ds)
      else None)"

definition edit_docs :: "cli_args \<Rightarrow> user_input \<Rightarrow> todo_item list \<Rightarrow> todo_item list" where
  "edit_docs cl ui ds =
     (case edit_target cl ds of
       None \<Rightarrow> ds
     | Some i \<Rightarrow>
         (case ask_title (title (ds ! i)) (title_entries ui) of
           None \<Rightarrow> ds
         | Some v \<Rightarrow> ds[i := (ds ! i)\<lparr>title := v, description := flatten_description (editor_text ui)\<rparr>]))"

definition edit_effect :: "cli_args \<Rightarrow> user_input \<Rightarrow> store \<Rightarrow> store" where
  "edit_effect cl ui s = (case docs s of None \<Rightarrow> s | Some ds \<Rightarrow> s\<lparr>docs := Some (edit_docs cl ui ds)\<rparr>)"

text \<open>The store a run leaves, as a function (under the store invariant).\<close>

lemma todo_show_store_fun:
  assumes inv: "store_inv s"
  shows "run_store (todo_show ck cl ui s) = edit_effect cl ui s"
proof (cases rule: todo_show_cases [of s ck cl ui])
  case (edit ds a)
  show ?thesis
  proof (cases "first_pos (match_query [Index_is (js_to_number a)]) ds")
    case None
    then have "find (match_query [Index_is (js_to_number a)]) ds = None"
      by (simp add: find_conv_first_pos del: first_pos_None_iff)
    with edit None show ?thesis
      by (simp add: edit_effect_def edit_docs_def edit_target_def showEditor_def store_findOne_Some
               del: first_pos_None_iff)
  next
    case (Some i)
    then have i: "i < length ds" and f: "find (match_query [Index_is (js_to_number a)]) ds = Some (ds ! i)"
      by (auto simp: find_conv_first_pos dest: first_pos_Some)
    show ?thesis
    proof (cases "ask_title (title (ds ! i)) (title_entries ui)")
      case None
      with edit Some f show ?thesis
        by (simp add: edit_effect_def edit_docs_def edit_target_def showEditor_interrupted store_findOne_Some)
    next
      case (Some v)
      from showEditor_completed [OF inv edit(1) f Some] obtain j where
        j: "j < length ds" "ds ! j = ds ! i" and
        run: "run_store (showEditor (js_to_number a) ui s) =
                s\<lparr>docs := Some (ds[j := (ds ! i)\<lparr>title := v,
                                   description := flatten_description (editor_text ui)\<rparr>])\<rparr>"
        by fastforce
      from inv edit(1) have "distinct (map item_id ds)" by (simp add: store_inv_def docs_inv_def)
      with i j have "j = i" by (metis distinct_map_nth_eq)
      with edit \<open>first_pos _ ds = Some i\<close> Some run show ?thesis
        by (simp add: edit_effect_def edit_docs_def edit_target_def)
    qed
  qed
qed (auto simp: edit_effect_def edit_docs_def edit_target_def split: option.splits)

lemma edit_target_index:
  "map index ds' = map index ds \<Longrightarrow> edit_target cl ds' = edit_target cl ds"
proof -
  assume m: "map index ds' = map index ds"
  have c: "map (match_query [Index_is n]) xs = map (\<lambda>k. n = Some k) (map index xs)" for n xs
    by (simp add: match_Index_is_fun)
  have "map (match_query [Index_is n]) ds' = map (match_query [Index_is n]) ds" for n
    by (simp only: c m)
  then have "first_pos (match_query [Index_is n]) ds' = first_pos (match_query [Index_is n]) ds" for n
    by (rule first_pos_map_eq)
  then show ?thesis by (simp add: edit_target_def)
qed

lemma edit_target_Some:
  "edit_target cl ds = Some i \<Longrightarrow>
   i < length ds \<and> js_to_number (the (cli_index cl)) = Some (index (ds ! i))"
  by (cases "cli_index cl") (auto simp: edit_target_def match_Index_is_fun split: if_splits dest: first_pos_Some)

lemma edit_docs_index: "map index (edit_docs cl ui ds) = map index ds"
proof (cases "edit_target cl ds")
  case None
  then show ?thesis by (simp add: edit_docs_def)
next
  case (Some i)
  then have "i < length ds" using edit_target_Some by blast
  then have "(map index ds)[i := index (ds ! i)] = map index ds"
    by (simp add: list_eq_iff_nth_eq nth_list_update)
  with Some show ?thesis by (simp add: edit_docs_def map_update split: option.split)
qed

lemma docs_same [simp]: "docs s = Some ds \<Longrightarrow> s\<lparr>docs := Some ds\<rparr> = s"
  by (cases s) simp

lemma edit_docs_nth: "edit_target cl ds \<noteq> Some i \<Longrightarrow> edit_docs cl ui ds ! i = ds ! i"
  by (auto simp: edit_docs_def split: option.splits)

lemma length_edit_docs [simp]: "length (edit_docs cl ui ds) = length ds"
  by (auto simp: edit_docs_def split: option.splits)

lemma edit_docs_commute:
  assumes ne: "js_to_number (the (cli_index cl1)) \<noteq> js_to_number (the (cli_index cl2))"
  shows "edit_docs cl2 ui2 (edit_docs cl1 ui1 ds) = edit_docs cl1 ui1 (edit_docs cl2 ui2 ds)"
proof -
  have t1: "edit_target cl1 (edit_docs cl2 ui2 ds) = edit_target cl1 ds"
    by (rule edit_target_index) (rule edit_docs_index)
  have t2: "edit_target cl2 (edit_docs cl1 ui1 ds) = edit_target cl2 ds"
    by (rule edit_target_index) (rule edit_docs_index)
  show ?thesis
  proof (cases "edit_target cl1 ds")
    case None
    then show ?thesis using t1 t2 by (simp add: edit_docs_def)
  next
    case (Some i1)
    show ?thesis
    proof (cases "edit_target cl2 ds")
      case None
      then show ?thesis using t1 t2 by (simp add: edit_docs_def)
    next
      case (Some i2)
      have "i1 \<noteq> i2"
        using edit_target_Some [OF \<open>edit_target cl1 ds = Some i1\<close>] edit_target_Some [OF Some] ne by auto
      then have n1: "edit_docs cl2 ui2 ds ! i1 = ds ! i1" and n2: "edit_docs cl1 ui1 ds ! i2 = ds ! i2"
        using \<open>edit_target cl1 ds = Some i1\<close> Some by (simp_all add: edit_docs_nth)
      note facts = t1 t2 n1 n2 \<open>edit_target cl1 ds = Some i1\<close> Some
      show ?thesis
      proof (cases "ask_title (title (ds ! i1)) (title_entries ui1)";
             cases "ask_title (title (ds ! i2)) (title_entries ui2)")
      qed (use facts in \<open>simp_all add: edit_docs_def list_update_swap [OF \<open>i1 \<noteq> i2\<close>]\<close>)
    qed
  qed
qed

lemma store_inv_edit_effect: "store_inv s \<Longrightarrow> store_inv (edit_effect cl ui s)"
  by (auto simp: edit_effect_def edit_docs_def store_inv_edit dest: edit_target_Some split: option.splits)

text \<open>C13: equivalence. Two invocations of todo-show whose arguments select different
  tasks (their numbers differ) leave the same store in either order; only edits of the
  same task depend on their order, the later one winning.\<close>

theorem edits_commute:
  assumes inv: "store_inv s"
    and ne: "js_to_number (the (cli_index cl1)) \<noteq> js_to_number (the (cli_index cl2))"
  shows "session s [Show ck1 cl1 ui1, Show ck2 cl2 ui2] = session s [Show ck2 cl2 ui2, Show ck1 cl1 ui1]"
proof -
  have "session s [Show ck1 cl1 ui1, Show ck2 cl2 ui2] = edit_effect cl2 ui2 (edit_effect cl1 ui1 s)"
    using inv by (simp add: session_def todo_show_store_fun store_inv_edit_effect)
  moreover have "session s [Show ck2 cl2 ui2, Show ck1 cl1 ui1] = edit_effect cl1 ui1 (edit_effect cl2 ui2 s)"
    using inv by (simp add: session_def todo_show_store_fun store_inv_edit_effect)
  moreover have "edit_effect cl2 ui2 (edit_effect cl1 ui1 s) = edit_effect cl1 ui1 (edit_effect cl2 ui2 s)"
    using edit_docs_commute [OF ne] by (simp add: edit_effect_def split: option.splits)
  ultimately show ?thesis by simp
qed

end
