(* ===== verification/Console_Output.thy ===== *)
theory Console_Output
  imports Todo_Show
begin

text \<open>
  What the terminal shows. Each \<open>console.log\<close> call of todo-show.ts prints its arguments
  (a template literal, or two arguments joined by one space, line 89) and a newline;
  without colour support chalk returns its text unchanged, so the text the user sees is
  the concatenation of a line's pieces. \<open>console_text\<close> is that text for a list of
  calls. The theory also states how the views treat a schedule the schedule library
  cannot parse.
\<close>

definition console_text :: "out_line list \<Rightarrow> string" where
  "console_text ls = concat (map (\<lambda>l. concat (map snd l) @ newline) ls)"

lemma console_text_lines:
  "\<forall>l\<in>set ls. \<forall>p\<in>set l. CHR 0x0A \<notin> set (snd p) \<Longrightarrow>
   length (filter (\<lambda>c. c = CHR 0x0A) (console_text ls)) = length ls"
proof (induction ls)
  case Nil
  then show ?case by (simp add: console_text_def)
next
  case (Cons l ls)
  then have "filter (\<lambda>c. c = CHR 0x0A) (concat (map snd l)) = []"
    by (auto simp: filter_empty_conv)
  with Cons show ?case by (simp add: console_text_def newline_def)
qed

lemma set_strEllipsis: "set (strEllipsis s n) \<subseteq> set s \<union> set ellipsis_mark"
  by (auto simp: strEllipsis_def dest: in_set_takeD)

lemma show_int_no_newline: "CHR 0x0A \<notin> set (show_int i)"
  using show_int_chars [of i] by (auto simp: js_ws_def)

lemma glyph_no_newline:
  "CHR 0x0A \<notin> set (status_glyph t)" "CHR 0x0A \<notin> set ellipsis_mark" "CHR 0x0A \<notin> set down_arrow"
  by (simp_all add: status_glyph_def hollow_dot_def filled_dot_def ellipsis_mark_def down_arrow_def)

lemma strEllipsis_no_newline: "CHR 0x0A \<notin> set s \<Longrightarrow> CHR 0x0A \<notin> set (strEllipsis s n)"
  using set_strEllipsis [of s n] glyph_no_newline(2) by blast

text \<open>C15: bounds. When no title or description of the collection holds a newline, the
  list the command prints takes exactly one terminal line per \<open>console.log\<close> call: the
  arrow, one line per task, one per non-empty description, and the closing blank.\<close>

theorem list_console_lines:
  assumes "\<forall>t\<in>set ts. CHR 0x0A \<notin> set (title t) \<and> CHR 0x0A \<notin> set (description t)"
  shows "length (filter (\<lambda>c. c = CHR 0x0A) (console_text (list_lines ck ts))) = length (list_lines ck ts)"
proof (rule console_text_lines)
  have "\<forall>p\<in>set l. CHR 0x0A \<notin> set (snd p)" if "l \<in> set (item_lines ck t)" "t \<in> set ts" for l t
    using that assms
    by (auto simp: item_lines_def Let_def show_int_no_newline glyph_no_newline strEllipsis_no_newline
             split: if_splits)
  then show "\<forall>l\<in>set (list_lines ck ts). \<forall>p\<in>set l. CHR 0x0A \<notin> set (snd p)"
    by (auto simp: list_lines_def glyph_no_newline)
qed

text \<open>C14: error. A schedule the schedule library cannot parse is never an error the
  user sees (MalformedScheduleError is swallowed): the task view and the list line of the
  task are those of the same task without a schedule, with no deadline, no script marker
  and the status colour.\<close>

theorem malformed_schedule_ignored:
  assumes "cronTime t = Some c" and "deadline_of ck c = None"
  shows "task_lines ck n t = task_lines ck n (t\<lparr>cronTime := None\<rparr>) \<and>
         item_lines ck t = item_lines ck (t\<lparr>cronTime := None\<rparr>)"
  using assms
  by (simp add: task_lines_def item_lines_def date_def script_resolved_def isTimeout_def
                colorOfTask_def symbolOfTask_def status_glyph_def)

end
