(* ===== verification/Spec2Isabelle.thy ===== *)
theory Spec2Isabelle
  imports Persistence Prompt_Loop Edit_Order Console_Output
begin

text \<open>
  \<^bold>\<open>The todo-show command of todo-live, verified.\<close>

  \<^emph>\<open>The program.\<close> The repository's one source file under \<open>src/\<close>,
  src/src/bin/todo-show.ts, is a command-line program: it reads every task of the local
  store (\<open>store.find({})\<close>), and then, by its arguments, prints
  \<open>Nothing needs to do.\<close> for an empty store, opens the editor for one task (\<open>-e N\<close>:
  \<open>showEditor\<close>, two \<open>inquirer\<close> prompts, then \<open>store.update\<close>), shows one task
  (\<open>N\<close>: \<open>showTask\<close>) or lists them all. It calls three modules that are not under
  \<open>src/\<close> and are modelled from the specification: the store with its query matcher
  (\<open>utils/store\<close>), the status deriver (\<open>utils/filter\<close>) and the data model
  (\<open>types\<close>, \<open>constants\<close>); and it relies on JavaScript's \<open>+string\<close>, template
  literals and truthiness, modelled after ECMAScript.

  \<^emph>\<open>The theories.\<close>
  \<^item> \<open>Prelude\<close>: lemma collections and list lemmas (\<open>first_pos\<close>, the store's
    "first match" step; \<open>replace_all\<close>, the global \<open>String.replace\<close>).
  \<^item> \<open>Todo_Types\<close>: the \<open>TodoItem\<close> record (\<open>todo_item\<close>; \<open>_id\<close> is
    \<open>item_id\<close>, \<open>notes\<close> is \<open>item_notes\<close>) and the status pair.
  \<^item> \<open>Query_Matcher\<close>: filters as conjunctions of field equalities (\<open>match_query\<close>).
  \<^item> \<open>Store\<close>: the store as a record of the committed snapshot (\<open>None\<close> when
    unreadable) and two counters; \<open>store_find\<close>, \<open>store_findOne\<close>,
    \<open>store_update\<close>, \<open>store_insert\<close>, \<open>store_remove\<close> returning
    \<open>store_error + _\<close>; the invariant \<open>store_inv\<close> (unique non-zero identifiers,
    unique indices, both below their counters) kept by every operation; the abstraction
    \<open>docs_map\<close> to an identifier map, which \<open>update\<close> refines
    (\<open>store_update_refines\<close>); \<open>update\<close> fails exactly when \<open>findOne\<close>
    finds nothing. Indices come from a counter that never goes back, so an index is
    never reused.
  \<^item> \<open>Status_Filter\<close>: \<open>date\<close>, \<open>findScripts\<close> (a backtick-delimited fragment),
    \<open>isTimeout\<close>, \<open>colorOfTask\<close>, \<open>symbolOfTask\<close>, \<open>strEllipsis\<close>. The
    schedule library and the clock are the interface record \<open>clock\<close>; every lemma
    holds for every clock, and \<open>demo_clock\<close> is one concrete instance.
  \<^item> \<open>Js_Runtime\<close>: \<open>js_to_number\<close> (StringToNumber: the ECMAScript white
    space and line terminators as UTF-8 byte sequences, signs, fractions, exponents,
    \<open>0x\<close>/\<open>0o\<close>/\<open>0b\<close>) and \<open>show_int\<close>.
  \<^item> \<open>Todo_Show\<close>: the command, one definition per function of todo-show.ts:
    \<open>cli_index\<close> (lines 15-16 and the truthiness tests of lines 78-80),
    \<open>makeTaskQuestions\<close>, \<open>validate_title\<close> and \<open>ask_title\<close>/\<open>prompt\<close>
    (lines 18-30, 38), \<open>showError\<close> (32), \<open>flatten_description\<close> and
    \<open>merge_answer\<close> (41, 43), \<open>showEditor\<close> (34-46), \<open>task_lines\<close> and
    \<open>showTask\<close> (48-70), \<open>item_lines\<close> and \<open>list_lines\<close> (82-92), and
    \<open>todo_show\<close> for the main function (72-93). A run returns a \<open>run\<close> record: its
    \<open>outcome\<close> (completed, crashed with an unhandled rejection, or interrupted at a
    prompt), the console lines, and the store it leaves.
  \<^item> \<open>Lifecycle\<close>: the store across invocations (specification, sections 3 and 5):
    \<open>lifecycle_step\<close>, an inductive relation whose rules are one run of todo-show
    and the repository's add and delete commands (store \<open>insert\<close> and \<open>remove\<close>);
    \<open>reachable\<close> stores from an empty collection; \<open>session\<close> runs a list of
    invocations. Invariants are proved by rule induction over \<open>reachable\<close> and
    over \<open>lifecycle_step\<^sup>*\<^sup>*\<close>.
  \<^item> \<open>Collection_File\<close>: the collection file behind the store (specification,
    sections 4.2 and 6): \<open>encode_file\<close>/\<open>decode_file\<close> (a header line with the
    counters, then one line per record; tab-ended fields; backslash, newline and tab
    escaped in text), \<open>store_file\<close> (the commit of a collection) and
    \<open>store_open\<close> (line 8, \<open>new Store(DEFAULT_DATABASE)\<close>: an empty file is an empty
    collection, an unreadable or undecodable one the unreadable snapshot). Its lemmas
    prove \<open>decode_file (encode_file k n ds)\<close> gives the collection back, field by field.
  \<^item> \<open>Persistence\<close>: one invocation as a process, \<open>todo_show_process\<close> (open the
    store on the file, run \<open>todo_show\<close>, write the collection back when the edit's
    \<open>store.update\<close> succeeded).
  \<^item> \<open>Prompt_Loop\<close>: the title question as \<open>inquirer\<close> runs it, re-asking without
    bound: \<open>ask_loop\<close>, a \<open>partial_function (option)\<close> over an unbounded sequence of
    entries, whose \<open>None\<close> is a prompt that never returns.
  \<^item> \<open>Edit_Order\<close>: the store a run leaves as a function of its inputs
    (\<open>edit_effect\<close>, with \<open>edit_target\<close> the position an edit selects and
    \<open>edit_docs\<close> the edited collection), proved equal to \<open>run_store\<close> of
    \<open>todo_show\<close> under the store invariant; the order of invocations.
  \<^item> \<open>Console_Output\<close>: \<open>console_text\<close>, the text the \<open>console.log\<close> calls
    print (pieces of a line concatenated, a newline per call: chalk without colour
    support), and the views' treatment of a schedule that does not parse.
  \<^item> this theory: the properties that span the command and the store, with the
    scenarios of the specification (\<open>milk\<close>, \<open>deploy\<close>, \<open>demo_store\<close>) as
    witnesses.

  \<^emph>\<open>What is proved.\<close> An edit run refines a map update of the selected task
  (C1) and is computed exactly (C2); an edit with an index that selects no task crashes
  with a TypeError where the view prints the error line (C3); a run changes no
  identifier, index, status, schedule or note and no counter (C4), writes only non-empty
  titles and newline-free descriptions (C5), and is idempotent (C6); the index the list
  prints selects its task (C7, C10). Across invocations, every reachable store has
  unique keys (C8) and an index always designates the same record (C9). Only a
  completed edit writes the collection file (C11). The unbounded title prompt returns
  exactly when there is a title to fall back on or a non-empty entry comes (C12). Edits
  of different tasks commute (C13). A schedule that does not parse is shown as no
  schedule (C14), and the list takes one terminal line per call when no text holds a
  newline (C15). The branches of the main function (C16-C18, C24), the editor's failure
  paths (C19), the finite prompt's outcome (C20, C25), the shape of the list and task
  views (C21-C23), the view of a task just added (C26), the views of the
  specification's example tasks (C27-C29) and the truncation of titles and descriptions in
  the list (C30, C31) are stated exactly, and an edit committed by one process is what
  the next process shows (C32). The store's own lemmas (\<open>Store\<close>) and the file's
  round trip (\<open>Collection_File\<close>) carry these proofs.

  \<^emph>\<open>Bounds and choices.\<close> In the editor the prompt is modelled by the finite list
  of entries the user types, so a run always ends: running out of entries is the user
  leaving the prompt (\<open>Interrupted\<close>); C20 says exactly when that happens. The
  unbounded prompt of \<open>Prompt_Loop\<close> returns a title exactly when some finite prefix of
  the entries makes the finite model return it (\<open>ask_loop_prefix\<close>). JavaScript
  numbers are integers up to \<open>2^53\<close> or \<open>None\<close> (NaN, infinities, fractions, larger
  values), which is all that decides which task an argument selects; a decimal literal
  with more than 17 significant digits that JavaScript rounds to an integral double is
  \<open>None\<close> in the model. One clock reading serves a whole run. Strings are UTF-8 byte
  strings. The file encoding is the model's choice: the specification leaves it open and
  the store module is not in the repository; what is proved of it is the contract of
  section 6 (read-all gives back the last write-all, in order, text fields exact). The
  process writes the file whenever the edit's update succeeded, also when the record is
  unchanged, as the store's \<open>update\<close> does.

  \<^emph>\<open>Not modelled.\<close> chalk's colour escape codes (a colour is a tag on a piece
  of text, and \<open>console_text\<close> is the output without colour support: the codes depend
  on the terminal, not on the program), the rendering of prompts, \<open>commander\<close>'s option
  parsing (its result is the input), comparison operators in filters, crashes in the
  middle of a write (a commit is one step: the file holds the old or the new content),
  and concurrent invocations (excluded by the specification). Counters and indices are
  unbounded integers; the double arithmetic of JavaScript would stop the index counter
  at \<open>2^53\<close>, beyond any collection a user keeps. The schedule library behind
  \<open>date\<close> and \<open>isTimeout\<close> is an interface (\<open>clock\<close>): its source is neither in
  the repository nor described beyond "next occurrence" by the specification, so no
  concrete parser would be faithful to it; every property holds for every clock.

  \<^emph>\<open>Scope.\<close> Every function and every line of todo-show.ts that does more than
  import a module is modelled; what is left outside (the schedule library, chalk's colour
  codes, prompt rendering) is not code of this repository and is not described by the
  specification closely enough to be modelled faithfully.
\<close>

section \<open>Scenarios of the specification\<close>

definition milk :: todo_item where
  "milk = \<lparr>item_id = 1, index = 1, title = ''Buy milk'', description = [], status = Unsolved,
           cronTime = None, item_notes = []\<rparr>"

definition deploy :: todo_item where
  "deploy = \<lparr>item_id = 2, index = 2, title = ''Deploy'',
             description = ''run: '' @ [backtick] @ ''deploy.sh'' @ [backtick], status = Unsolved,
             cronTime = Some ''900'', item_notes = [''check the logs'']\<rparr>"

definition demo_store :: store where
  "demo_store = \<lparr>docs = Some [milk, deploy], next_id = 3, next_index = 3\<rparr>"

definition demo_edit_input :: user_input where
  "demo_edit_input = \<lparr>title_entries = [''Deploy v2''],
                      editor_text = ''run: '' @ [backtick] @ ''deploy.sh'' @ [backtick] @ newline\<rparr>"

definition no_input :: user_input where
  "no_input = \<lparr>title_entries = [], editor_text = []\<rparr>"

lemma demo_store_inv: "store_inv demo_store"
  by (simp add: store_inv_def docs_inv_def demo_store_def milk_def deploy_def)

lemma demo_docs: "docs demo_store = Some [milk, deploy]"
  by (simp add: demo_store_def)

lemma js_to_number_2: "js_to_number ''2'' = Some 2"
  by code_simp

lemma js_to_number_7: "js_to_number ''7'' = Some 7"
  by code_simp

lemma js_to_number_1: "js_to_number ''1'' = Some 1"
  by code_simp

lemma js_to_number_nbsp: "js_to_number ([CHR 0xC2, CHR 0xA0] @ ''2'' @ [CHR 0xE3, CHR 0x80, CHR 0x80]) = Some 2"
  by code_simp

lemma demo_unparsed: "deadline_of demo_clock ''soon'' = None"
  by code_simp

lemma show_int_2: "show_int 2 = ''2''"
  by code_simp

lemma find_demo_2: "find (match_query [Index_is (Some 2)]) [milk, deploy] = Some deploy"
  by (simp add: milk_def deploy_def)

lemma find_demo_2': "find (match_query [Index_is (js_to_number ''2'')]) [milk, deploy] = Some deploy"
  using find_demo_2 by (simp only: js_to_number_2)

lemma demo_ask: "ask_title (title deploy) (title_entries demo_edit_input) = Some ''Deploy v2''"
  by (simp add: deploy_def demo_edit_input_def validate_title_def)

lemma demo_edit_cli: "cli_index \<lparr>edit_opt = True, args = [''2'']\<rparr> = Some ''2''"
  by (simp add: cli_index_def)

definition deploy_v2 :: todo_item where
  "deploy_v2 = deploy\<lparr>title := ''Deploy v2'', description := flatten_description (editor_text demo_edit_input)\<rparr>"

lemma demo_edit_run:
  "todo_show demo_clock \<lparr>edit_opt = True, args = [''2'']\<rparr> demo_edit_input demo_store =
     \<lparr>run_outcome = Completed,
      run_output = [[(Plain, '' '')], [(Plain, editor_text demo_edit_input)],
                    [(Plain, ''task updated.'' @ newline)]],
      run_store = demo_store\<lparr>docs := Some [milk, deploy_v2]\<rparr>\<rparr>"
proof -
  have run: "todo_show demo_clock \<lparr>edit_opt = True, args = [''2'']\<rparr> demo_edit_input demo_store =
      showEditor (Some 2) demo_edit_input demo_store"
    using todo_show_edit [OF demo_docs _ demo_edit_cli] js_to_number_2 by simp
  obtain i where i: "i < length [milk, deploy]" "[milk, deploy] ! i = deploy" and
    ed: "showEditor (Some 2) demo_edit_input demo_store =
      \<lparr>run_outcome = Completed,
       run_output = [[(Plain, '' '')]] @
         (if editor_text demo_edit_input \<noteq> [] then [[(Plain, editor_text demo_edit_input)]] else []) @
         [[(Plain, ''task updated.'' @ newline)]],
       run_store = demo_store\<lparr>docs := Some ([milk, deploy][i := deploy\<lparr>title := ''Deploy v2'',
                     description := flatten_description (editor_text demo_edit_input)\<rparr>])\<rparr>\<rparr>"
    using showEditor_completed [OF demo_store_inv demo_docs find_demo_2 demo_ask] by blast
  have "milk \<noteq> deploy" by (simp add: milk_def deploy_def)
  with i have "i = 1" by (auto simp: less_Suc_eq)
  with run ed show ?thesis by (simp add: deploy_v2_def demo_edit_input_def)
qed

lemma demo_store_reachable: "reachable demo_store"
proof -
  have "session empty_store [Add milk, Add deploy] = demo_store"
    by (simp add: session_def store_insert_def Let_def empty_store_def demo_store_def milk_def deploy_def)
  with reachable_session [OF reachable.init, of "[Add milk, Add deploy]"] show ?thesis by simp
qed

lemma demo_deadline: "deadline_of demo_clock ''900'' = Some 900"
  by code_simp

lemma demo_render: "render_time demo_clock 900 = ''900''"
  by code_simp

lemma demo_script: "findScripts (description deploy)"
  by code_simp

section \<open>Properties of the command\<close>

text \<open>C1: refinement. An edit run whose index selects a task and whose title prompt is answered completes; seen as the map from identifiers to records, the store it leaves is the old map updated at the task's identifier with the task carrying the answered title and the flattened editor text.\<close>

theorem todo_show_edit_refines:
  assumes inv: "store_inv s" and ds: "docs s = Some ds" and ed: "edit_opt cl"
    and a: "cli_index cl = Some a"
    and t: "find (match_query [Index_is (js_to_number a)]) ds = Some t"
    and v: "ask_title (title t) (title_entries ui) = Some v"
  shows "run_outcome (todo_show ck cl ui s) = Completed \<and>
         (\<exists>ds'. docs (run_store (todo_show ck cl ui s)) = Some ds' \<and>
            docs_map ds' = (docs_map ds)(item_id t \<mapsto>
               t\<lparr>title := v, description := flatten_description (editor_text ui)\<rparr>))"
proof -
  from t have "ds \<noteq> []" by auto
  with ds ed a have run: "todo_show ck cl ui s = showEditor (js_to_number a) ui s"
    by (simp add: todo_show_edit)
  obtain i where i: "i < length ds" "ds ! i = t" and
    ed_run: "showEditor (js_to_number a) ui s =
             \<lparr>run_outcome = Completed,
              run_output = [[(Plain, '' '')]] @
                (if editor_text ui \<noteq> [] then [[(Plain, editor_text ui)]] else []) @
                [[(Plain, ''task updated.'' @ newline)]],
              run_store = s\<lparr>docs := Some (ds[i := t\<lparr>title := v,
                                   description := flatten_description (editor_text ui)\<rparr>])\<rparr>\<rparr>"
    using showEditor_completed [OF inv ds t v] by blast
  from inv ds have "distinct (map item_id ds)" by (simp add: store_inv_def docs_inv_def)
  with i have "docs_map (ds[i := t\<lparr>title := v, description := flatten_description (editor_text ui)\<rparr>]) =
      (docs_map ds)(item_id t \<mapsto> t\<lparr>title := v, description := flatten_description (editor_text ui)\<rparr>)"
    using docs_map_update [of ds i] by simp
  with run ed_run show ?thesis by simp
qed
theorem todo_show_edit_refines_witness:
  "run_outcome (todo_show demo_clock \<lparr>edit_opt = True, args = [''2'']\<rparr> demo_edit_input demo_store) = Completed \<and>
   (\<exists>ds'. docs (run_store (todo_show demo_clock \<lparr>edit_opt = True, args = [''2'']\<rparr> demo_edit_input demo_store)) = Some ds' \<and>
      docs_map ds' = (docs_map [milk, deploy])(item_id deploy \<mapsto> deploy_v2))"
  using todo_show_edit_refines [OF demo_store_inv demo_docs _ demo_edit_cli _ demo_ask, of demo_clock]
    js_to_number_2 find_demo_2
  by (simp add: deploy_v2_def)

text \<open>C2: functional. The edit run in full: when the index selects a task and the title prompt is answered, the command prints a blank line, the saved editor text when it is non-empty and the confirmation, and leaves the store with that task replaced, at its position, by the task with the answered title and the editor text whose newlines are turned into ". "; nothing else changes.\<close>

theorem todo_show_edit_run:
  assumes inv: "store_inv s" and ds: "docs s = Some ds" and ed: "edit_opt cl"
    and a: "cli_index cl = Some a"
    and t: "find (match_query [Index_is (js_to_number a)]) ds = Some t"
    and v: "ask_title (title t) (title_entries ui) = Some v"
  shows "\<exists>i<length ds. ds ! i = t \<and>
           todo_show ck cl ui s =
             \<lparr>run_outcome = Completed,
              run_output = [[(Plain, '' '')]] @
                (if editor_text ui \<noteq> [] then [[(Plain, editor_text ui)]] else []) @
                [[(Plain, ''task updated.'' @ newline)]],
              run_store = s\<lparr>docs := Some (ds[i := t\<lparr>title := v,
                                   description := flatten_description (editor_text ui)\<rparr>])\<rparr>\<rparr>"
proof -
  from t have "ds \<noteq> []" by auto
  with ds ed a have "todo_show ck cl ui s = showEditor (js_to_number a) ui s"
    by (simp add: todo_show_edit)
  with showEditor_completed [OF inv ds t v] show ?thesis by simp
qed

theorem todo_show_edit_run_witness:
  "\<exists>i<length [milk, deploy]. [milk, deploy] ! i = deploy \<and>
     todo_show demo_clock \<lparr>edit_opt = True, args = [''2'']\<rparr> demo_edit_input demo_store =
       \<lparr>run_outcome = Completed,
        run_output = [[(Plain, '' '')]] @
          (if editor_text demo_edit_input \<noteq> [] then [[(Plain, editor_text demo_edit_input)]] else []) @
          [[(Plain, ''task updated.'' @ newline)]],
        run_store = demo_store\<lparr>docs := Some ([milk, deploy][i := deploy\<lparr>title := ''Deploy v2'',
                     description := flatten_description (editor_text demo_edit_input)\<rparr>])\<rparr>\<rparr>"
  by (rule todo_show_edit_run [OF demo_store_inv demo_docs _ demo_edit_cli find_demo_2' demo_ask]) simp

text \<open>C3: error. With an argument that selects no task, showing prints "Nothing needs to do." and completes, while editing (-e) crashes with a TypeError, since showEditor hands the absent task to makeTaskQuestions; neither touches the store.\<close>

theorem todo_show_unknown_index:
  assumes ds: "docs s = Some ds" "ds \<noteq> []" and a: "args cl = a # rest" "a \<noteq> []"
    and none: "\<forall>t\<in>set ds. js_to_number a \<noteq> Some (index t)"
  shows "todo_show ck (cl\<lparr>edit_opt := False\<rparr>) ui s =
           \<lparr>run_outcome = Completed, run_output = showError, run_store = s\<rparr> \<and>
         todo_show ck (cl\<lparr>edit_opt := True\<rparr>) ui s =
           \<lparr>run_outcome = Crashed Type_error, run_output = [[(Plain, '' '')]], run_store = s\<rparr>"
proof -
  have idx: "cli_index (cl\<lparr>edit_opt := b\<rparr>) = Some a" for b
    using a by (simp add: cli_index_def)
  have "todo_show ck (cl\<lparr>edit_opt := False\<rparr>) ui s =
          \<lparr>run_outcome = Completed, run_output = showTask ck (js_to_number a) s, run_store = s\<rparr>"
    using ds idx by (intro todo_show_task) auto
  moreover have "todo_show ck (cl\<lparr>edit_opt := True\<rparr>) ui s = showEditor (js_to_number a) ui s"
    using ds idx by (intro todo_show_edit) auto
  ultimately show ?thesis
    using ds none by (simp add: showTask_missing showEditor_missing)
qed
theorem todo_show_unknown_index_witness:
  "todo_show demo_clock \<lparr>edit_opt = False, args = [''7'']\<rparr> no_input demo_store =
     \<lparr>run_outcome = Completed, run_output = showError, run_store = demo_store\<rparr> \<and>
   todo_show demo_clock \<lparr>edit_opt = True, args = [''7'']\<rparr> no_input demo_store =
     \<lparr>run_outcome = Crashed Type_error, run_output = [[(Plain, '' '')]], run_store = demo_store\<rparr>"
  using todo_show_unknown_index [OF demo_docs, where cl = "\<lparr>edit_opt = False, args = [''7'']\<rparr>"
      and a = "''7''" and rest = "[]" and ck = demo_clock and ui = no_input]
    js_to_number_7
  by (simp add: milk_def deploy_def)


text \<open>C4: safety. A run changes no record's identifier, index, status, schedule or notes, moves no record and leaves both counters alone: only titles and descriptions are ever written.\<close>

theorem todo_show_frame:
  assumes inv: "store_inv s" and ds: "docs s = Some ds"
  shows "\<exists>ds'. docs (run_store (todo_show ck cl ui s)) = Some ds' \<and>
           map (\<lambda>t. (item_id t, index t, status t, cronTime t, item_notes t)) ds' =
           map (\<lambda>t. (item_id t, index t, status t, cronTime t, item_notes t)) ds \<and>
           next_id (run_store (todo_show ck cl ui s)) = next_id s \<and>
           next_index (run_store (todo_show ck cl ui s)) = next_index s"
  using inv
proof (cases rule: todo_show_store_cases [of s ck cl ui])
  case same
  with ds show ?thesis by simp
next
  case (edited ds0 i v)
  with ds show ?thesis by (simp add: map_update_same_field)
qed
theorem todo_show_frame_witness:
  "\<exists>ds'. docs (run_store (todo_show demo_clock \<lparr>edit_opt = True, args = [''2'']\<rparr> demo_edit_input demo_store)) = Some ds' \<and>
     map (\<lambda>t. (item_id t, index t, status t, cronTime t, item_notes t)) ds' =
     map (\<lambda>t. (item_id t, index t, status t, cronTime t, item_notes t)) [milk, deploy] \<and>
     next_id (run_store (todo_show demo_clock \<lparr>edit_opt = True, args = [''2'']\<rparr> demo_edit_input demo_store)) = next_id demo_store \<and>
     next_index (run_store (todo_show demo_clock \<lparr>edit_opt = True, args = [''2'']\<rparr> demo_edit_input demo_store)) = next_index demo_store"
  by (rule todo_show_frame [OF demo_store_inv demo_docs])

text \<open>C5: safety. Every record a run writes has a non-empty title (the prompt's validation) and a description without a newline character (the replace of line 41).\<close>

theorem todo_show_written_records:
  assumes inv: "store_inv s" and ds: "docs s = Some ds"
    and ds': "docs (run_store (todo_show ck cl ui s)) = Some ds'"
    and u: "u \<in> set ds'" and new: "u \<notin> set ds"
  shows "title u \<noteq> [] \<and> CHR 0x0A \<notin> set (description u)"
  using inv
proof (cases rule: todo_show_store_cases [of s ck cl ui])
  case same
  with ds ds' u new show ?thesis by simp
next
  case (edited ds0 i v)
  with ds ds' have "ds' = ds[i := (ds ! i)\<lparr>title := v, description := flatten_description (editor_text ui)\<rparr>]"
    by simp
  with u new have "u = (ds ! i)\<lparr>title := v, description := flatten_description (editor_text ui)\<rparr>"
    using set_update_subset_insert by fastforce
  with edited show ?thesis by (simp add: ask_title_valid flatten_description_no_newline)
qed
theorem todo_show_written_records_witness:
  "title deploy_v2 \<noteq> [] \<and> CHR 0x0A \<notin> set (description deploy_v2)"
proof -
  have "deploy_v2 \<notin> set [milk, deploy]"
    by (simp add: deploy_v2_def milk_def deploy_def)
  then show ?thesis
    using todo_show_written_records [OF demo_store_inv demo_docs _ _ _,
        of demo_clock "\<lparr>edit_opt = True, args = [''2'']\<rparr>" demo_edit_input "[milk, deploy_v2]" deploy_v2]
      demo_edit_run
    by simp
qed

text \<open>C6: equivalence. Running the same command with the same answers twice leaves the same store as running it once: an edit is idempotent.\<close>

theorem todo_show_idempotent:
  assumes inv: "store_inv s"
  shows "run_store (todo_show ck cl ui (run_store (todo_show ck cl ui s))) = run_store (todo_show ck cl ui s)"
  using inv
proof (cases rule: todo_show_store_cases [of s ck cl ui])
  case same
  then show ?thesis by simp
next
  case (edited ds i v)
  define t' where "t' = (ds ! i)\<lparr>title := v, description := flatten_description (editor_text ui)\<rparr>"
  define s1 where "s1 = s\<lparr>docs := Some (ds[i := t'])\<rparr>"
  obtain a where a: "cli_index cl = Some a" using edited by auto
  from inv edited have dist: "distinct (map index ds)" by (simp add: store_inv_def docs_inv_def)
  have inv1: "store_inv s1"
    using store_inv_edit [OF inv edited(1,2)] by (simp add: s1_def t'_def)
  have m: "match_query [Index_is (js_to_number a)] (ds ! i)"
    using edited(4) a by (auto simp: find_Some_iff)
  have find1: "find (match_query [Index_is (js_to_number a)]) (ds[i := t']) = Some t'"
    using find_unique_update [OF dist edited(2) m] by (simp add: t'_def)
  have v1: "ask_title (title t') (title_entries ui) = Some v"
    using ask_title_idem [OF edited(3)] by (simp add: t'_def)
  obtain j where j: "j < length (ds[i := t'])" "ds[i := t'] ! j = t'" and
    run1: "showEditor (js_to_number a) ui s1 =
             \<lparr>run_outcome = Completed,
              run_output = [[(Plain, '' '')]] @
                (if editor_text ui \<noteq> [] then [[(Plain, editor_text ui)]] else []) @
                [[(Plain, ''task updated.'' @ newline)]],
              run_store = s1\<lparr>docs := Some ((ds[i := t'])[j := t'\<lparr>title := v,
                                   description := flatten_description (editor_text ui)\<rparr>])\<rparr>\<rparr>"
    using showEditor_completed [OF inv1 _ find1 v1] by (auto simp: s1_def)
  have same_rec: "t'\<lparr>title := v, description := flatten_description (editor_text ui)\<rparr> = t'"
    by (simp add: t'_def)
  from j have "(ds[i := t'])[j := t'] = ds[i := t']" by (metis list_update_id)
  with run1 same_rec have "run_store (showEditor (js_to_number a) ui s1) = s1"
    by (simp add: s1_def)
  moreover have "todo_show ck cl ui s1 = showEditor (js_to_number a) ui s1"
    using edited(2,5) a by (intro todo_show_edit [of _ "ds[i := t']"]) (auto simp: s1_def)
  moreover have "run_store (todo_show ck cl ui s) = s1"
    using edited by (simp add: s1_def t'_def)
  ultimately show ?thesis by simp
qed
theorem todo_show_idempotent_witness:
  "run_store (todo_show demo_clock \<lparr>edit_opt = True, args = [''2'']\<rparr> demo_edit_input
      (run_store (todo_show demo_clock \<lparr>edit_opt = True, args = [''2'']\<rparr> demo_edit_input demo_store))) =
   demo_store\<lparr>docs := Some [milk, deploy_v2]\<rparr>"
  using todo_show_idempotent [OF demo_store_inv, of demo_clock "\<lparr>edit_opt = True, args = [''2'']\<rparr>" demo_edit_input]
    demo_edit_run
  by simp

text \<open>C7: round trip. The index the list prints for a task, given back as the first argument, makes the command show exactly that task.\<close>

theorem todo_show_selects_printed_index:
  assumes inv: "store_inv s" and ds: "docs s = Some ds" and t: "t \<in> set ds"
    and b: "\<bar>index t\<bar> \<le> 2 ^ 53"
  shows "todo_show ck \<lparr>edit_opt = False, args = show_int (index t) # rest\<rparr> ui s =
           \<lparr>run_outcome = Completed, run_output = task_lines ck (Some (index t)) t, run_store = s\<rparr>"
proof -
  from inv ds have dist: "distinct (map index ds)" and pos: "list_all (\<lambda>u. 0 < item_id u) ds"
    by (auto simp: store_inv_def docs_inv_def list_all_iff)
  from pos t have "item_id t \<noteq> 0" by (auto simp: list_all_iff)
  moreover have "find (match_query [Index_is (Some (index t))]) ds = Some t"
    using find_index_member [OF dist t] .
  ultimately have "showTask ck (Some (index t)) s = task_lines ck (Some (index t)) t"
    using ds by (simp add: showTask_found)
  moreover from t have "ds \<noteq> []" by auto
  ultimately show ?thesis
    using ds b by (simp add: todo_show_task cli_index_def js_to_number_show_int)
qed
theorem todo_show_selects_printed_index_witness:
  "todo_show demo_clock \<lparr>edit_opt = False, args = [''2'']\<rparr> no_input demo_store =
     \<lparr>run_outcome = Completed, run_output = task_lines demo_clock (Some 2) deploy, run_store = demo_store\<rparr>"
  using todo_show_selects_printed_index [OF demo_store_inv demo_docs, where t = deploy
      and ck = demo_clock and rest = "[]" and ui = no_input]
    show_int_2
  by (simp add: deploy_def)

text \<open>C18: error. When the index selects a task but the user leaves the title prompt without a valid answer, the edit run stops after the blank line and leaves the store unchanged.\<close>

theorem todo_show_edit_interrupted:
  assumes ds: "docs s = Some ds" and ed: "edit_opt cl" and a: "cli_index cl = Some a"
    and t: "find (match_query [Index_is (js_to_number a)]) ds = Some t"
    and none: "ask_title (title t) (title_entries ui) = None"
  shows "todo_show ck cl ui s =
           \<lparr>run_outcome = Interrupted, run_output = [[(Plain, '' '')]], run_store = s\<rparr>"
proof -
  from t have "ds \<noteq> []" by auto
  with ds ed a have "todo_show ck cl ui s = showEditor (js_to_number a) ui s"
    by (simp add: todo_show_edit)
  moreover from ds t have "store_findOne [Index_is (js_to_number a)] s = Inr (Some t)"
    by (simp add: store_findOne_Some)
  ultimately show ?thesis using none by (simp add: showEditor_interrupted)
qed

theorem todo_show_edit_interrupted_witness:
  "todo_show demo_clock \<lparr>edit_opt = True, args = [''2'']\<rparr> no_input demo_store =
     \<lparr>run_outcome = Interrupted, run_output = [[(Plain, '' '')]], run_store = demo_store\<rparr>"
  using todo_show_edit_interrupted [OF demo_docs _ demo_edit_cli, where t = deploy
      and ck = demo_clock and ui = no_input]
    js_to_number_2 find_demo_2
  by (simp add: no_input_def)

section \<open>Witnesses of the component properties\<close>

theorem js_to_number_padded_show_int_witness:
  "js_to_number ('' '' @ ''2'' @ newline) = Some 2"
proof -
  have "\<forall>c\<in>set '' ''. js_ws c" and "\<forall>c\<in>set newline. js_ws c"
    by (simp_all add: js_ws_def newline_def)
  with Js_Runtime.js_to_number_padded_show_int [of "'' ''" newline 2] show ?thesis
    by (simp add: show_int_2)
qed

theorem todo_show_empty_witness:
  "todo_show demo_clock \<lparr>edit_opt = True, args = [''1'']\<rparr> demo_edit_input empty_store =
     \<lparr>run_outcome = Completed, run_output = showError, run_store = empty_store\<rparr>"
  by (rule Todo_Show.todo_show_empty) (simp add: empty_store_def)

theorem todo_show_unreadable_witness:
  "todo_show demo_clock \<lparr>edit_opt = False, args = []\<rparr> no_input (demo_store\<lparr>docs := None\<rparr>) =
     \<lparr>run_outcome = Crashed (Store_failure PersistenceError), run_output = [],
      run_store = demo_store\<lparr>docs := None\<rparr>\<rparr>"
  by (rule Todo_Show.todo_show_unreadable) simp

theorem showEditor_store_unchanged_witness:
  "run_store (showEditor (Some 7) no_input demo_store) = demo_store"
proof -
  have "showEditor (Some 7) no_input demo_store =
          \<lparr>run_outcome = Crashed Type_error, run_output = [[(Plain, '' '')]], run_store = demo_store\<rparr>"
    using demo_docs by (rule showEditor_missing) (simp add: milk_def deploy_def)
  then show ?thesis
    using Todo_Show.showEditor_store_unchanged [of "Some 7" no_input demo_store] by simp
qed

theorem ask_title_None_iff_witness: "ask_title [] [[], []] = None"
  using Todo_Show.ask_title_None_iff [of "[]" "[[], []]"] by simp

theorem todo_show_list_witness:
  "todo_show demo_clock \<lparr>edit_opt = True, args = []\<rparr> no_input demo_store =
     \<lparr>run_outcome = Completed, run_output = list_lines demo_clock [milk, deploy], run_store = demo_store\<rparr>"
  by (rule Todo_Show.todo_show_list [OF demo_docs]) (simp_all add: cli_index_def)

theorem ask_title_default_witness: "ask_title ''Deploy'' [[], ''x''] = Some ''Deploy''"
  using Todo_Show.ask_title_default [of "''Deploy''" "[]" "[''x'']"] by simp

theorem reachable_unique_keys_witness:
  "\<exists>ds. docs demo_store = Some ds \<and> distinct (map item_id ds) \<and> distinct (map index ds) \<and>
      (\<forall>t\<in>set ds. item_id t \<noteq> 0)"
  by (rule Lifecycle.reachable_unique_keys [OF demo_store_reachable])

theorem index_keeps_identity_witness: "item_id deploy_v2 = item_id deploy"
proof -
  let ?s'' = "run_store (todo_show demo_clock \<lparr>edit_opt = True, args = [''2'']\<rparr> demo_edit_input demo_store)"
  have star: "lifecycle_step\<^sup>*\<^sup>* demo_store ?s''"
    by (rule r_into_rtranclp) (rule lifecycle_step.show_run)
  have ds'': "docs ?s'' = Some [milk, deploy_v2]" by (simp add: demo_edit_run)
  show ?thesis
    by (rule Lifecycle.index_keeps_identity [OF demo_store_reachable star demo_docs ds''])
       (simp_all add: deploy_v2_def)
qed

theorem task_lines_plain_witness:
  "task_lines demo_clock (Some 1) milk =
     [[(Accent, ''TASK ['' @ number_text (Some 1) @ ''] : '')],
      [(Hue Neutral, hollow_dot @ '' '' @ ''Buy milk'')],
      [(Plain, ''  '')],
      [(Plain, '' '')]]"
  using Todo_Show.task_lines_plain [of milk demo_clock "Some 1"] by (simp add: milk_def)

theorem task_lines_overdue_script_witness:
  "take 2 (task_lines demo_clock (Some 2) deploy) =
     [[(Accent, ''TASK ['' @ number_text (Some 2) @ ''] (limit: 900)(bash resolved): '')],
      [(Hue Warning, hollow_dot @ '' '' @ ''Deploy'')]]"
  using Todo_Show.task_lines_overdue_script [of deploy "''900''" demo_clock 900 "Some 2"]
    demo_deadline demo_render demo_script
  by (simp add: deploy_def demo_clock_def)

theorem solved_views_witness:
  "task_lines demo_clock (Some 1) (milk\<lparr>status := Solved\<rparr>) ! 1 = [(Hue Done, filled_dot @ '' Buy milk'')] \<and>
   hd (hd (item_lines demo_clock (milk\<lparr>status := Solved\<rparr>))) =
     (Hue Done, filled_dot @ '' '' @ show_int 1 @ '' '' @ strEllipsis ''Buy milk'' 50)"
  using Todo_Show.solved_views [of "milk\<lparr>status := Solved\<rparr>" demo_clock "Some 1"]
  by (simp add: milk_def)

theorem item_lines_description_bound_witness:
  "description deploy \<noteq> [] \<and>
   (\<exists>q. item_lines demo_clock deploy ! 1 = [(Plain, ''    - '' @ q)] \<and>
        length q \<le> 80 + length ellipsis_mark \<and> take 80 q = take 80 (description deploy))"
  using Todo_Show.item_lines_description_bound [of deploy demo_clock] by (simp add: deploy_def)




theorem ask_loop_terminates_witness:
  "\<exists>v. ask_loop [] (\<lambda>j. if j = (2::nat) then ''x'' else []) 0 = Some v"
  using Prompt_Loop.ask_loop_terminates [of "[]" "\<lambda>j. if j = (2::nat) then ''x'' else []" 0]
  by auto


theorem edits_commute_witness:
  "store_inv demo_store \<and>
   js_to_number (the (cli_index \<lparr>edit_opt = True, args = [''1'']\<rparr>)) \<noteq>
     js_to_number (the (cli_index \<lparr>edit_opt = True, args = [''2'']\<rparr>)) \<and>
   session demo_store [Show demo_clock \<lparr>edit_opt = True, args = [''1'']\<rparr> demo_edit_input,
                       Show demo_clock \<lparr>edit_opt = True, args = [''2'']\<rparr> demo_edit_input] =
   session demo_store [Show demo_clock \<lparr>edit_opt = True, args = [''2'']\<rparr> demo_edit_input,
                       Show demo_clock \<lparr>edit_opt = True, args = [''1'']\<rparr> demo_edit_input]"
proof -
  have ne: "js_to_number (the (cli_index \<lparr>edit_opt = True, args = [''1'']\<rparr>)) \<noteq>
            js_to_number (the (cli_index \<lparr>edit_opt = True, args = [''2'']\<rparr>))"
    by (simp add: cli_index_def js_to_number_1 js_to_number_2)
  show ?thesis
    using Edit_Order.edits_commute [OF demo_store_inv ne, of demo_clock demo_edit_input demo_clock demo_edit_input]
      demo_store_inv ne
    by simp
qed

theorem list_console_lines_witness:
  "CHR 0x0A \<notin> set (title milk) \<and> CHR 0x0A \<notin> set (description milk) \<and>
   CHR 0x0A \<notin> set (title deploy) \<and> CHR 0x0A \<notin> set (description deploy) \<and>
   length (filter (\<lambda>c. c = CHR 0x0A) (console_text (list_lines demo_clock [milk, deploy]))) =
     length (list_lines demo_clock [milk, deploy])"
proof -
  have h: "\<forall>t\<in>set [milk, deploy]. CHR 0x0A \<notin> set (title t) \<and> CHR 0x0A \<notin> set (description t)"
    by (simp add: milk_def deploy_def backtick_def)
  show ?thesis using Console_Output.list_console_lines [OF h, of demo_clock] h by simp
qed

theorem malformed_schedule_ignored_witness:
  "cronTime (deploy\<lparr>cronTime := Some ''soon''\<rparr>) = Some ''soon'' \<and> deadline_of demo_clock ''soon'' = None \<and>
   task_lines demo_clock (Some 2) (deploy\<lparr>cronTime := Some ''soon''\<rparr>) =
     task_lines demo_clock (Some 2) (deploy\<lparr>cronTime := Some ''soon'', cronTime := None\<rparr>) \<and>
   item_lines demo_clock (deploy\<lparr>cronTime := Some ''soon''\<rparr>) =
     item_lines demo_clock (deploy\<lparr>cronTime := Some ''soon'', cronTime := None\<rparr>)"
  using Console_Output.malformed_schedule_ignored [of "deploy\<lparr>cronTime := Some ''soon''\<rparr>" "''soon''" demo_clock "Some 2"]
    demo_unparsed
  by simp


theorem added_task_shown_witness:
  "reachable empty_store \<and>
   store_insert milk empty_store = Inr (milk, \<lparr>docs = Some [milk], next_id = 2, next_index = 2\<rparr>) \<and>
   \<bar>next_index empty_store\<bar> \<le> 2 ^ 53 \<and>
   milk = milk\<lparr>item_id := next_id empty_store, index := next_index empty_store\<rparr> \<and>
   todo_show demo_clock \<lparr>edit_opt = False, args = [show_int (next_index empty_store)]\<rparr> no_input
     \<lparr>docs = Some [milk], next_id = 2, next_index = 2\<rparr> =
   \<lparr>run_outcome = Completed, run_output = task_lines demo_clock (Some (next_index empty_store)) milk,
    run_store = \<lparr>docs = Some [milk], next_id = 2, next_index = 2\<rparr>\<rparr>"
proof -
  have ins: "store_insert milk empty_store = Inr (milk, \<lparr>docs = Some [milk], next_id = 2, next_index = 2\<rparr>)"
    by (simp add: store_insert_def empty_store_def milk_def Let_def)
  have b: "\<bar>next_index empty_store\<bar> \<le> 2 ^ 53" by (simp add: empty_store_def)
  from Lifecycle.added_task_shown [OF reachable.init ins b, of demo_clock no_input]
  show ?thesis using reachable.init ins b by blast
qed

theorem edit_then_show_witness:
  "store_inv (store_open (store_file demo_store)) \<and>
   docs (store_open (store_file demo_store)) = Some [milk, deploy] \<and>
   cli_index \<lparr>edit_opt = True, args = [''2'']\<rparr> = Some ''2'' \<and> edit_opt \<lparr>edit_opt = True, args = [''2'']\<rparr> \<and>
   find (match_query [Index_is (js_to_number ''2'')]) [milk, deploy] = Some deploy \<and>
   ask_title (title deploy) (title_entries demo_edit_input) = Some ''Deploy v2'' \<and>
   run_outcome (fst (todo_show_process demo_clock (\<lparr>edit_opt = True, args = [''2'']\<rparr>\<lparr>edit_opt := False\<rparr>) no_input
     (snd (todo_show_process demo_clock \<lparr>edit_opt = True, args = [''2'']\<rparr> demo_edit_input
        (store_file demo_store))))) = Completed \<and>
   run_output (fst (todo_show_process demo_clock (\<lparr>edit_opt = True, args = [''2'']\<rparr>\<lparr>edit_opt := False\<rparr>) no_input
     (snd (todo_show_process demo_clock \<lparr>edit_opt = True, args = [''2'']\<rparr> demo_edit_input
        (store_file demo_store))))) =
     task_lines demo_clock (js_to_number ''2'')
       (deploy\<lparr>title := ''Deploy v2'', description := flatten_description (editor_text demo_edit_input)\<rparr>)"
proof -
  have o: "store_open (store_file demo_store) = demo_store"
    by (simp add: store_open_store_file demo_store_def)
  have inv: "store_inv (store_open (store_file demo_store))" using o demo_store_inv by simp
  have ds: "docs (store_open (store_file demo_store)) = Some [milk, deploy]" using o demo_docs by simp
  from Persistence.edit_then_show [OF inv ds demo_edit_cli _ find_demo_2' demo_ask, of demo_clock no_input]
  show ?thesis using inv ds demo_edit_cli find_demo_2' demo_ask by simp
qed

end
